theory Spec2Isabelle
  imports Complex_Main "HOL-Library.Word"
begin

section \<open>JavaScript values as the code uses them\<close>

text \<open>
  Optional fields and optional parameters are \<open>'a option\<close> (\<open>None\<close> is \<open>undefined\<close>).
  Strings are byte strings. Numbers that the code only compares, clamps or truncates are
  rationals: \<open>Math.max\<close>, \<open>Math.min\<close>, \<open><\<close> and \<open>slice\<close> are exact on them.
\<close>

datatype mcp_code = InvalidParams | InternalError | MethodNotFound

datatype error =
    JsError string             \<comment> \<open>\<open>new Error(message)\<close>\<close>
  | McpError mcp_code string   \<comment> \<open>\<open>new McpError(code, message)\<close>\<close>

text \<open>\<open>a || b\<close> on optional strings: the empty string and \<open>undefined\<close> are falsy.\<close>

definition truthy :: "string option \<Rightarrow> bool" where
  "truthy a = (case a of None \<Rightarrow> False | Some s \<Rightarrow> s \<noteq> [])"

definition orElse :: "string option \<Rightarrow> string option \<Rightarrow> string option" where
  "orElse a b = (if truthy a then a else b)"

text \<open>Template interpolation \<open>${x}\<close> of an optional string.\<close>

definition interp :: "string option \<Rightarrow> string" where
  "interp a = (case a of None \<Rightarrow> ''undefined'' | Some s \<Rightarrow> s)"

text \<open>\<open>xs.join(sep)\<close>.\<close>

fun join :: "string \<Rightarrow> string list \<Rightarrow> string" where
  "join sep [] = []"
| "join sep [x] = x"
| "join sep (x # y # ys) = x @ sep @ join sep (y # ys)"

text \<open>
  \<open>xs.slice(0, end)\<close>: the end index is truncated towards zero, a negative one counts
  from the end of the list.
\<close>

definition trunc :: "rat \<Rightarrow> int" where
  "trunc q = (if q < 0 then - \<lfloor>- q\<rfloor> else \<lfloor>q\<rfloor>)"

definition slice0 :: "'a list \<Rightarrow> rat \<Rightarrow> 'a list" where
  "slice0 xs e =
     (let k = trunc e
      in if k < 0 then take (nat (int (length xs) + k)) xs else take (nat k) xs)"

section \<open>Data model\<close>

text \<open>\<open>Entity\<close> and \<open>Relation\<close> of types.ts; \<open>rfrom\<close> and \<open>rto\<close> are the fields \<open>from\<close> and \<open>to\<close>.
  \<open>isEntity\<close> accepts an object whose type is given as \<open>entity_type\<close> only, and the scan
  rebuilds entities from chunks without a type, so \<open>entityType\<close> can be undefined.\<close>

record entity =
  name :: string
  entityType :: "string option"
  observations :: "string list"

record relation =
  rfrom :: string
  rto :: string
  relationType :: string

record knowledge_graph =
  entities :: "entity list"
  relations :: "relation list"

text \<open>The nested \<open>metadata\<close> object of the newer chunk layout.\<close>

record chunk_metadata =
  m_entity_type :: "string option"
  m_observations :: "string list option"
  m_file_path :: "string option"
  m_line_number :: "nat option"
  m_end_line_number :: "nat option"
  m_has_implementation :: "bool option"

record semantic_metadata_raw =
  sm_calls :: "string list option"
  sm_imports_used :: "string list option"
  sm_exceptions_handled :: "string list option"
  sm_complexity :: "nat option"
  sm_inferred_types :: "string list option"

text \<open>
  A chunk payload: the fields of \<open>ChunkPayload\<close> and the ones the code reads through
  \<open>as any\<close>. \<open>p_type\<close>, \<open>p_name\<close>, \<open>p_id\<close>, \<open>p_from\<close>, \<open>p_to\<close> are the fields \<open>type\<close>, \<open>name\<close>,
  \<open>id\<close>, \<open>from\<close>, \<open>to\<close>.
\<close>

record payload =
  p_type :: "string option"
  chunk_type :: "string option"
  entity_name :: "string option"
  p_name :: "string option"
  p_id :: "string option"
  entity_type :: "string option"
  content :: "string option"
  file_path :: "string option"
  relation_target :: "string option"
  relation_type :: "string option"
  p_from :: "string option"
  p_to :: "string option"
  p_relationType :: "string option"
  created_at :: "string option"
  p_observations :: "string list option"
  metadata :: "chunk_metadata option"
  semantic_metadata :: "semantic_metadata_raw option"
  line_number :: "nat option"
  end_line_number :: "nat option"
  has_implementation :: "bool option"

definition empty_payload :: payload where
  "empty_payload =
     \<lparr>p_type = None, chunk_type = None, entity_name = None, p_name = None, p_id = None,
      entity_type = None, content = None, file_path = None, relation_target = None,
      relation_type = None, p_from = None, p_to = None, p_relationType = None,
      created_at = None, p_observations = None, metadata = None, semantic_metadata = None,
      line_number = None, end_line_number = None, has_implementation = None\<rparr>"

text \<open>\<open>payload.metadata?.entity_type || payload.entity_type\<close>.\<close>

definition payload_entity_type :: "payload \<Rightarrow> string option" where
  "payload_entity_type p =
     orElse (case metadata p of None \<Rightarrow> None | Some m \<Rightarrow> m_entity_type m) (entity_type p)"

section \<open>The vector index service and the other collaborators\<close>

datatype point_id = IdNum nat | IdUuid string

record point =
  pt_vector :: "rat list"
  pt_payload :: "payload option"

datatype match_clause = MatchValue string | MatchAny "string list"

datatype condition = FieldMatch string match_clause | ShouldOf "condition list"

record qfilter =
  must :: "condition list option"
  should :: "condition list option"

record search_request =
  sr_vector :: "rat list"
  sr_limit :: rat
  sr_with_payload :: bool
  sr_filter :: "qfilter option"

record scored_point =
  sp_score :: rat
  sp_payload :: "payload option"

datatype cursor = CursorNum rat | CursorStr string

text \<open>\<open>next_page_offset\<close> as the client returns it: a number, a string, \<open>null\<close>,
  \<open>undefined\<close>, or a value of another kind (an object, a bigint), for which \<open>OffObject\<close>
  stands.\<close>

datatype page_offset = OffCursor cursor | OffNull | OffUndefined | OffObject

record scroll_request =
  sc_limit :: nat
  sc_offset :: "cursor option"
  sc_filter :: qfilter

record scroll_result =
  sc_points :: "payload option list"
  next_page_offset :: page_offset

text \<open>A keyword-index document as \<open>initializeBM25Index\<close> builds it.\<close>

record bm25_document =
  doc_id :: "string option"
  doc_content :: string
  doc_entityType :: string
  doc_observations :: "string list"
  doc_file_path :: "string option"
  doc_line_number :: "nat option"
  doc_end_line_number :: "nat option"
  doc_has_implementation :: bool
  doc_chunk :: payload

record search_result =
  score :: rat
  data :: payload

text \<open>A hit of the keyword index: the document, its id and its score.\<close>

record bm25_result =
  documentId :: string
  br_score :: rat
  br_document :: bm25_document

text \<open>
  Everything outside the repository's source: configuration, the SHA-256 of Node's crypto
  module, the embedding provider, the clock, and the answers of the vector index. An
  answer is a function of the request: one snapshot of the store. Each scan of the model
  may request at most \<open>page_budget\<close> pages; a scan that needs more has no result.
  \<open>bm25_search\<close> and \<open>bm25_convert\<close> are \<open>BM25Service.search\<close> (as a function of the
  indexed documents) and \<open>BM25Service.convertToSearchResult\<close> of bm25Service.ts, and
  \<open>semantic_first_rank\<close> and \<open>keyword_first_rank\<close> are the ranks that
  \<open>HybridSearchFusion.fuseResults\<close> of the same file gives to the first result of the
  semantic list and of the keyword list.
\<close>

record ext =
  COLLECTION_NAME :: "string option"
  EMBEDDING_PROVIDER :: "string option"
  sha256 :: "string \<Rightarrow> 256 word"
  generateEmbedding :: "string \<Rightarrow> error + rat list"
  clock :: "nat \<Rightarrow> string"
  sdk_message :: "mcp_code \<Rightarrow> string \<Rightarrow> string"
  qd_getCollections :: "error + string list"
  qd_createCollection :: "nat \<Rightarrow> error option"
  qd_getCollection :: "error + nat option"
  qd_upsert_error :: "point_id \<Rightarrow> error option"
  qd_search :: "search_request \<Rightarrow> error + scored_point list"
  qd_scroll :: "scroll_request \<Rightarrow> error + scroll_result"
  page_budget :: nat
  bm25_search :: "bm25_document list \<Rightarrow> string \<Rightarrow> rat \<Rightarrow> string list option \<Rightarrow> bm25_result list"
  bm25_convert :: "bm25_result \<Rightarrow> string option \<Rightarrow> search_result"
  semantic_first_rank :: nat
  keyword_first_rank :: nat

text \<open>The fields of a \<open>QdrantPersistence\<close> instance, the documents its \<open>BM25Service\<close>
  holds, the number of clock readings so far, and the points of the collection.\<close>

record state =
  initialized :: bool
  vectorSize :: nat
  bm25_documents :: "bm25_document list"
  ticks :: nat
  points :: "point_id \<rightharpoonup> point"

definition error_message :: "ext \<Rightarrow> error \<Rightarrow> string" where
  "error_message x e = (case e of JsError m \<Rightarrow> m | McpError c m \<Rightarrow> sdk_message x c m)"

text \<open>\<open>!COLLECTION_NAME\<close>.\<close>

definition no_collection :: "ext \<Rightarrow> bool" where
  "no_collection x = (\<not> truthy (COLLECTION_NAME x))"

definition collection_error :: error where
  "collection_error = JsError ''COLLECTION_NAME environment variable is required''"

section \<open>QdrantPersistence: connection and writes\<close>

text \<open>The retry loop of \<open>connect\<close>: \<open>Inr True\<close> when an attempt succeeded.\<close>

fun connect_loop :: "ext \<Rightarrow> nat \<Rightarrow> error + bool" where
  "connect_loop x 0 = Inr False"
| "connect_loop x (Suc retries) =
     (case qd_getCollections x of
        Inr _ \<Rightarrow> Inr True
      | Inl e \<Rightarrow>
          if retries = 0
          then Inl (JsError (''Failed to connect to Qdrant after multiple attempts: ''
                  @ error_message x e))
          else connect_loop x retries)"

definition connect :: "ext \<Rightarrow> state \<Rightarrow> (error + unit) \<times> state" where
  "connect x st =
     (if initialized st then (Inr (), st)
      else (case connect_loop x 3 of
              Inl e \<Rightarrow> (Inl e, st)
            | Inr ok \<Rightarrow> (Inr (), if ok then st\<lparr>initialized := True\<rparr> else st)))"

text \<open>\<open>hashString\<close>: the first four bytes of the digest, read big-endian.\<close>

definition hashString :: "ext \<Rightarrow> string \<Rightarrow> 32 word" where
  "hashString x str = ucast (drop_bit 224 (sha256 x str))"

text \<open>\<open>client.upsert\<close> of one point: the point with that id is written or replaced.\<close>

definition upsert :: "ext \<Rightarrow> point_id \<Rightarrow> point \<Rightarrow> state \<Rightarrow> (error + unit) \<times> state" where
  "upsert x i pt st =
     (case qd_upsert_error x i of
        Some e \<Rightarrow> (Inl e, st)
      | None \<Rightarrow> (Inr (), st\<lparr>points := (points st)(i \<mapsto> pt)\<rparr>))"

definition entity_id :: "ext \<Rightarrow> string \<Rightarrow> point_id" where
  "entity_id x n = IdNum (unat (hashString x (''manual::'' @ n @ ''::metadata'')))"

definition entity_payload :: "entity \<Rightarrow> string \<Rightarrow> payload" where
  "entity_payload e now =
     empty_payload\<lparr>p_type := Some ''chunk'', chunk_type := Some ''metadata'',
       entity_name := Some (name e), entity_type := entityType e,
       p_observations := Some (observations e),
       content := Some (join ''. '' (observations e)),
       created_at := Some now\<rparr>"

definition persistEntity :: "ext \<Rightarrow> entity \<Rightarrow> state \<Rightarrow> (error + unit) \<times> state" where
  "persistEntity x e st =
     (case connect x st of
        (Inl err, st1) \<Rightarrow> (Inl err, st1)
      | (Inr _, st1) \<Rightarrow>
          if no_collection x then (Inl collection_error, st1)
          else
            let text = name e @ '' ('' @ interp (entityType e) @ ''): ''
                       @ join ''. '' (observations e)
            in (case generateEmbedding x text of
                  Inl err \<Rightarrow> (Inl err, st1)
                | Inr vec \<Rightarrow>
                    (let i = entity_id x (name e);
                         now = clock x (ticks st1);
                         st2 = st1\<lparr>ticks := Suc (ticks st1)\<rparr>
                     in upsert x i
                          \<lparr>pt_vector = vec, pt_payload = Some (entity_payload e now)\<rparr> st2)))"

definition relation_key :: "relation \<Rightarrow> string" where
  "relation_key r = rfrom r @ ''-'' @ relationType r @ ''-'' @ rto r"

definition relation_id :: "ext \<Rightarrow> relation \<Rightarrow> point_id" where
  "relation_id x r =
     IdNum (unat (hashString x (''relation::'' @ relation_key r @ ''::relation'')))"

definition relation_payload :: "relation \<Rightarrow> string \<Rightarrow> payload" where
  "relation_payload r now =
     empty_payload\<lparr>p_type := Some ''chunk'', chunk_type := Some ''relation'',
       entity_name := Some (relation_key r), entity_type := Some ''relation'',
       content := Some (rfrom r @ '' '' @ relationType r @ '' '' @ rto r),
       p_from := Some (rfrom r), p_to := Some (rto r),
       relation_type := Some (relationType r),
       created_at := Some now\<rparr>"

definition persistRelation :: "ext \<Rightarrow> relation \<Rightarrow> state \<Rightarrow> (error + unit) \<times> state" where
  "persistRelation x r st =
     (case connect x st of
        (Inl err, st1) \<Rightarrow> (Inl err, st1)
      | (Inr _, st1) \<Rightarrow>
          if no_collection x then (Inl collection_error, st1)
          else
            let text = rfrom r @ '' '' @ relationType r @ '' '' @ rto r
            in (case generateEmbedding x text of
                  Inl err \<Rightarrow> (Inl err, st1)
                | Inr vec \<Rightarrow>
                    (let i = relation_id x r;
                         now = clock x (ticks st1);
                         st2 = st1\<lparr>ticks := Suc (ticks st1)\<rparr>
                     in upsert x i
                          \<lparr>pt_vector = vec, pt_payload = Some (relation_payload r now)\<rparr> st2)))"

section \<open>QdrantPersistence: search\<close>

datatype search_mode = Semantic | Keyword | Hybrid

definition knownChunkTypes :: "string list" where
  "knownChunkTypes = [''metadata'', ''implementation'']"

text \<open>\<open>entityTypes.filter(type => !knownChunkTypes.includes(type))\<close>.\<close>

definition actual_entity_types :: "string list \<Rightarrow> string list" where
  "actual_entity_types ts = filter (\<lambda>t. t \<notin> set knownChunkTypes) ts"

definition buildEntityTypeFilter :: "string list option \<Rightarrow> qfilter option" where
  "buildEntityTypeFilter entityTypes =
     (case entityTypes of
        None \<Rightarrow> None
      | Some ts \<Rightarrow>
          if ts = [] then None
          else
            let chunkTypes = filter (\<lambda>t. t \<in> set knownChunkTypes) ts;
                actualEntityTypes = actual_entity_types ts;
                c1 = (if actualEntityTypes \<noteq> []
                      then [ShouldOf [FieldMatch ''entity_type'' (MatchAny actualEntityTypes),
                                      FieldMatch ''metadata.entity_type'' (MatchAny actualEntityTypes)]]
                      else []);
                c2 = (if chunkTypes \<noteq> []
                      then [FieldMatch ''chunk_type'' (MatchAny chunkTypes)]
                      else []);
                filterConditions = c1 @ c2
            in if filterConditions = [] then None
               else if length filterConditions = 1
               then Some \<lparr>must = Some filterConditions, should = None\<rparr>
               else Some \<lparr>must = None, should = Some filterConditions\<rparr>)"

text \<open>
  \<open>entityBoosts[entityType] || 1.0\<close>, for a type that is one of the eight keys of the table
  or no property of the table at all. A type that names a property the table inherits
  (\<open>constructor\<close>, \<open>toString\<close>, ...) finds that property in the code, and the score becomes
  \<open>NaN\<close>; the scores of the model are numbers, and it gives such a type the factor 1.
\<close>

definition entityBoosts :: "string \<Rightarrow> rat" where
  "entityBoosts t =
     (if t \<in> {''function'', ''class'', ''method''} then 13 / 10
      else if t \<in> {''interface'', ''type''} then 115 / 100
      else if t \<in> {''const'', ''variable''} then 11 / 10
      else if t = ''import'' then 105 / 100
      else 1)"

text \<open>\<open>payload.entity_name || payload.name || 'unknown'\<close>.\<close>

definition normalized_name :: "payload \<Rightarrow> string" where
  "normalized_name p =
     (case orElse (orElse (entity_name p) (p_name p)) (Some ''unknown'') of
        Some n \<Rightarrow> n | None \<Rightarrow> ''unknown'')"

text \<open>
  The boost of a score. Scores are exact rationals here, and the code multiplies doubles:
  two products that differ only by their rounding in the code are equal here, and keep the
  order of the store where the code may exchange them.
\<close>

definition boosted_score :: "rat \<Rightarrow> payload \<Rightarrow> rat" where
  "boosted_score s p =
     (if chunk_type p = Some ''metadata'' then s * (14 / 10)
      else if chunk_type p = Some ''implementation'' then s * (12 / 10)
      else (case payload_entity_type p of
              None \<Rightarrow> s
            | Some t \<Rightarrow> if t = [] then s else s * entityBoosts t))"

text \<open>One turn of the loop of \<open>processSearchResults\<close>: the results a point adds.\<close>

definition processSearchResult :: "scored_point \<Rightarrow> search_result list" where
  "processSearchResult r =
     (case sp_payload r of
        None \<Rightarrow> []
      | Some p \<Rightarrow>
          if truthy (chunk_type p)
          then [\<lparr>score = boosted_score (sp_score r) p,
                 data = p\<lparr>entity_name := Some (normalized_name p)\<rparr>\<rparr>]
          else [])"

text \<open>\<open>Array.prototype.sort\<close> is stable; \<open>(a, b) => b.score - a.score\<close> orders by
  descending score.\<close>

definition sort_by_score :: "search_result list \<Rightarrow> search_result list" where
  "sort_by_score rs = sort_key (\<lambda>r. - score r) rs"

definition processSearchResults :: "scored_point list \<Rightarrow> search_result list" where
  "processSearchResults results = sort_by_score (concat (map processSearchResult results))"

definition performSemanticSearch ::
  "ext \<Rightarrow> string \<Rightarrow> string list option \<Rightarrow> rat \<Rightarrow> error + search_result list" where
  "performSemanticSearch x query entityTypes limit =
     (case generateEmbedding x query of
        Inl e \<Rightarrow> Inl e
      | Inr queryVector \<Rightarrow>
          (case qd_search x \<lparr>sr_vector = queryVector, sr_limit = limit,
                             sr_with_payload = True,
                             sr_filter = buildEntityTypeFilter entityTypes\<rparr> of
             Inl e \<Rightarrow> Inl e
           | Inr results \<Rightarrow> Inr (processSearchResults results)))"

subsection \<open>The keyword index\<close>

text \<open>The offset the scan loops keep: a string or a number, anything else is \<open>undefined\<close>.\<close>

definition next_offset :: "page_offset \<Rightarrow> cursor option" where
  "next_offset off = (case off of OffCursor c \<Rightarrow> Some c | _ \<Rightarrow> None)"

definition metadata_scroll_filter :: qfilter where
  "metadata_scroll_filter =
     \<lparr>must = Some [FieldMatch ''type'' (MatchValue ''chunk''),
                   FieldMatch ''chunk_type'' (MatchValue ''metadata'')],
      should = None\<rparr>"

text \<open>The \<open>do ... while\<close> loop of \<open>initializeBM25Index\<close>; the second argument bounds the
  number of pages, and \<open>None\<close> is a scan that needs more.\<close>

fun scroll_metadata_chunks ::
  "ext \<Rightarrow> nat \<Rightarrow> cursor option \<Rightarrow> payload list \<Rightarrow> (error + payload list) option" where
  "scroll_metadata_chunks x 0 offset metadataChunks = None"
| "scroll_metadata_chunks x (Suc fuel) offset metadataChunks =
     (case qd_scroll x \<lparr>sc_limit = 100, sc_offset = offset,
                        sc_filter = metadata_scroll_filter\<rparr> of
        Inl e \<Rightarrow> Some (Inl e)
      | Inr scrollResult \<Rightarrow>
          (let chunks = metadataChunks @ List.map_filter (\<lambda>p. p) (sc_points scrollResult)
           in case next_offset (next_page_offset scrollResult) of
                None \<Rightarrow> Some (Inr chunks)
              | Some c \<Rightarrow> scroll_metadata_chunks x fuel (Some c) chunks))"

text \<open>
  The white space of \<open>str.trim()\<close> and of \<open>\s\<close>. A character of the model is a code unit
  below 256; the white space of JavaScript there is the tab, the line feed, the vertical
  tab, the form feed, the carriage return, the space and the no-break space. Its white
  space beyond (U+1680, U+2000 to U+200A, U+2028, U+2029, U+202F, U+205F, U+3000, U+FEFF)
  is outside the strings of the model.
\<close>

definition is_space :: "char \<Rightarrow> bool" where
  "is_space c = (c \<in> {CHR '' '', CHR 0x09, CHR 0x0A, CHR 0x0B, CHR 0x0C, CHR 0x0D, CHR 0xA0})"

definition trim :: "string \<Rightarrow> string" where
  "trim s = rev (dropWhile is_space (rev (dropWhile is_space s)))"

definition truthy_nat :: "nat option \<Rightarrow> bool" where
  "truthy_nat a = (case a of None \<Rightarrow> False | Some n \<Rightarrow> n \<noteq> 0)"

text \<open>
  The document built from a metadata chunk. The object literal ends with \<open>...chunk\<close>, so
  a field the chunk has itself (\<open>id\<close>, \<open>content\<close>, \<open>observations\<close>, \<open>file_path\<close>,
  \<open>line_number\<close>, \<open>end_line_number\<close>, \<open>has_implementation\<close>) replaces the computed one.
\<close>

definition to_bm25_document :: "payload \<Rightarrow> bm25_document" where
  "to_bm25_document chunk =
     (let md = metadata chunk;
          ident = orElse (entity_name chunk) (p_id chunk)
      in \<lparr>doc_id = (case p_id chunk of Some i \<Rightarrow> Some i | None \<Rightarrow> ident),
          doc_content =
            (case content chunk of
               Some c \<Rightarrow> c
             | None \<Rightarrow> trim (interp ident @ '' '')),
          doc_entityType =
            (case orElse (payload_entity_type chunk) (Some ''unknown'') of
               Some t \<Rightarrow> t | None \<Rightarrow> ''unknown''),
          doc_observations =
            (case p_observations chunk of
               Some os \<Rightarrow> os
             | None \<Rightarrow>
                 (case md of
                    None \<Rightarrow> []
                  | Some m \<Rightarrow> (case m_observations m of Some os \<Rightarrow> os | None \<Rightarrow> []))),
          doc_file_path =
            (case file_path chunk of
               Some f \<Rightarrow> Some f
             | None \<Rightarrow> orElse (case md of None \<Rightarrow> None | Some m \<Rightarrow> m_file_path m) None),
          doc_line_number =
            (case line_number chunk of
               Some n \<Rightarrow> Some n
             | None \<Rightarrow>
                 (let l = (case md of None \<Rightarrow> None | Some m \<Rightarrow> m_line_number m)
                  in if truthy_nat l then l else None)),
          doc_end_line_number =
            (case end_line_number chunk of
               Some n \<Rightarrow> Some n
             | None \<Rightarrow>
                 (let l = (case md of None \<Rightarrow> None | Some m \<Rightarrow> m_end_line_number m)
                  in if truthy_nat l then l else None)),
          doc_has_implementation =
            (case has_implementation chunk of
               Some b \<Rightarrow> b
             | None \<Rightarrow>
                 (case md of
                    None \<Rightarrow> False
                  | Some m \<Rightarrow> (case m_has_implementation m of Some b \<Rightarrow> b | None \<Rightarrow> False))),
          doc_chunk = chunk\<rparr>)"

text \<open>
  Modelled from the spec: \<open>BM25Service.clearDocuments\<close> and \<open>BM25Service.updateDocuments\<close>
  (bm25/bm25Service.ts is not among the sources). The spec gives the keyword index the
  operations \<open>clear()\<close> and \<open>index(documents)\<close>: the index holds the documents given to it
  since it was last cleared.
\<close>

definition clearDocuments :: "state \<Rightarrow> state" where
  "clearDocuments st = st\<lparr>bm25_documents := []\<rparr>"

definition updateDocuments :: "bm25_document list \<Rightarrow> state \<Rightarrow> state" where
  "updateDocuments docs st = st\<lparr>bm25_documents := bm25_documents st @ docs\<rparr>"

text \<open>\<open>initializeBM25Index\<close>: the index is cleared, and filled inside a \<open>try\<close> whose
  \<open>catch\<close> only logs.\<close>

definition initializeBM25Index :: "ext \<Rightarrow> state \<Rightarrow> state option" where
  "initializeBM25Index x st =
     (case connect x (clearDocuments st) of
        (Inl e, st1) \<Rightarrow> Some st1
      | (Inr _, st1) \<Rightarrow>
          if no_collection x then Some st1
          else (case scroll_metadata_chunks x (page_budget x) None [] of
                  None \<Rightarrow> None
                | Some (Inl e) \<Rightarrow> Some st1
                | Some (Inr metadataChunks) \<Rightarrow>
                    Some (updateDocuments (map to_bm25_document metadataChunks) st1)))"

definition performKeywordSearch ::
  "ext \<Rightarrow> string \<Rightarrow> string list option \<Rightarrow> rat \<Rightarrow> state
     \<Rightarrow> ((error + search_result list) \<times> state) option" where
  "performKeywordSearch x query entityTypes limit st =
     (case connect x st of
        (Inl e, st1) \<Rightarrow> Some (Inl e, st1)
      | (Inr _, st1) \<Rightarrow>
          if no_collection x then Some (Inl collection_error, st1)
          else (case initializeBM25Index x st1 of
                  None \<Rightarrow> None
                | Some st2 \<Rightarrow>
                    Some (Inr (map (\<lambda>r. bm25_convert x r (COLLECTION_NAME x))
                                 (bm25_search x (bm25_documents st2) query limit entityTypes)),
                          st2)))"

subsection \<open>Hybrid search\<close>

text \<open>\<open>result.data.entity_name || 'unknown'\<close>: the name under which a result counts.\<close>

definition result_key :: "search_result \<Rightarrow> string" where
  "result_key r =
     (case orElse (entity_name (data r)) (Some ''unknown'') of
        Some n \<Rightarrow> n | None \<Rightarrow> ''unknown'')"

text \<open>
  Modelled from the spec: \<open>HybridSearchFusion.fuseResults\<close> (bm25/bm25Service.ts is not
  among the sources). The spec: the fused score of a document is the sum, over the sources
  whose ranked list holds it, of \<open>weight[source] / (K + rank_source(doc))\<close>, the rank being
  the position in that list; the final list is sorted by descending fused score, ties
  keeping the order in which a document was first met, the semantic list first. A semantic
  result stands for the document of its entity name.

  The spec does not fix where the ranks start. Its section on the fusion counts them from 1
  in both lists. Its example, semantic ranks \<open>D1, D2, D3\<close> and keyword ranks \<open>D3, D1\<close> with the
  scores \<open>0.7/61 + 0.3/61\<close> for \<open>D1\<close> and \<open>0.7/63 + 0.3/60\<close> for \<open>D3\<close>, counts the semantic
  ranks from 1 and the keyword ranks from 0. The rank of the first document of each list
  is therefore a parameter, \<open>semantic_first_rank\<close> and \<open>keyword_first_rank\<close>.

  \<open>rank_of first d ds\<close> is the rank of \<open>d\<close> in \<open>ds\<close> when the ranks start at \<open>first\<close>.
\<close>

fun rank_of :: "nat \<Rightarrow> string \<Rightarrow> string list \<Rightarrow> nat option" where
  "rank_of first d [] = None"
| "rank_of first d (y # ys) = (if d = y then Some first else rank_of (Suc first) d ys)"

definition rrf_term :: "rat \<Rightarrow> rat \<Rightarrow> nat option \<Rightarrow> rat" where
  "rrf_term w K r = (case r of None \<Rightarrow> 0 | Some k \<Rightarrow> w / (K + of_nat k))"

definition fused_score ::
  "ext \<Rightarrow> string list \<Rightarrow> string list \<Rightarrow> rat \<Rightarrow> rat \<Rightarrow> rat \<Rightarrow> string \<Rightarrow> rat" where
  "fused_score x semantic keyword wS wK K d =
     rrf_term wS K (rank_of (semantic_first_rank x) d semantic)
     + rrf_term wK K (rank_of (keyword_first_rank x) d keyword)"

fun first_seen :: "(string \<times> 'a) list \<Rightarrow> (string \<times> 'a) list" where
  "first_seen [] = []"
| "first_seen (c # cs) = c # first_seen (filter (\<lambda>c'. fst c' \<noteq> fst c) cs)"

definition fused_ranking ::
  "ext \<Rightarrow> search_result list \<Rightarrow> bm25_result list \<Rightarrow> string option \<Rightarrow> rat \<Rightarrow> rat \<Rightarrow> rat
     \<Rightarrow> (string \<times> search_result) list" where
  "fused_ranking x semanticResults keywordResults coll wS wK K =
     (let semantic = map result_key semanticResults;
          keyword = map documentId keywordResults;
          candidates = first_seen
            (map (\<lambda>r. (result_key r, r)) semanticResults
             @ map (\<lambda>k. (documentId k, bm25_convert x k coll)) keywordResults)
      in sort_key (\<lambda>c. - score (snd c))
           (map (\<lambda>c. (fst c, (snd c)\<lparr>score := fused_score x semantic keyword wS wK K (fst c)\<rparr>))
              candidates))"

definition fuseResults ::
  "ext \<Rightarrow> search_result list \<Rightarrow> bm25_result list \<Rightarrow> string option \<Rightarrow> rat \<Rightarrow> rat \<Rightarrow> rat
     \<Rightarrow> search_result list" where
  "fuseResults x semanticResults keywordResults coll wS wK K =
     map snd (fused_ranking x semanticResults keywordResults coll wS wK K)"

definition performHybridSearch ::
  "ext \<Rightarrow> string \<Rightarrow> string list option \<Rightarrow> rat \<Rightarrow> state \<Rightarrow> error + search_result list" where
  "performHybridSearch x query entityTypes limit st =
     (case performSemanticSearch x query entityTypes limit of
        Inl e \<Rightarrow> Inl e
      | Inr semanticResults \<Rightarrow>
          (let keywordResults = bm25_search x (bm25_documents st) query limit entityTypes;
               hybridResults = fuseResults x semanticResults keywordResults
                                 (COLLECTION_NAME x) (7 / 10) (3 / 10) 60
           in Inr (slice0 hybridResults limit)))"

text \<open>The \<open>catch\<close> of \<open>searchSimilar\<close>: an error becomes the empty list.\<close>

definition catch_empty :: "error + 'a list \<Rightarrow> error + 'a list" where
  "catch_empty r = (case r of Inl e \<Rightarrow> Inr [] | Inr v \<Rightarrow> Inr v)"

definition searchSimilar ::
  "ext \<Rightarrow> string \<Rightarrow> string list option \<Rightarrow> rat option \<Rightarrow> search_mode option \<Rightarrow> state
     \<Rightarrow> ((error + search_result list) \<times> state) option" where
  "searchSimilar x query entityTypes limit0 searchMode0 st =
     (let limit = (case limit0 of None \<Rightarrow> 20 | Some l \<Rightarrow> l);
          searchMode = (case searchMode0 of None \<Rightarrow> Semantic | Some m \<Rightarrow> m)
      in case connect x st of
           (Inl e, st1) \<Rightarrow> Some (Inl e, st1)
         | (Inr _, st1) \<Rightarrow>
             if no_collection x then Some (Inl collection_error, st1)
             else (case searchMode of
                     Semantic \<Rightarrow>
                       Some (catch_empty (performSemanticSearch x query entityTypes limit), st1)
                   | Keyword \<Rightarrow>
                       (case performKeywordSearch x query entityTypes limit st1 of
                          None \<Rightarrow> None
                        | Some (r, st2) \<Rightarrow> Some (catch_empty r, st2))
                   | Hybrid \<Rightarrow>
                       Some (catch_empty (performHybridSearch x query entityTypes limit st1),
                             st1)))"

section \<open>Request validation and the search tool\<close>

text \<open>Tool arguments arrive as parsed JSON. An object is the list of its properties.\<close>

datatype jsval =
    JUndefined | JNull | JBool bool | JNumber rat | JString string
  | JArray "jsval list" | JObject "(string \<times> jsval) list"

text \<open>\<open>typeof value === 'object' && value !== null\<close>.\<close>

definition isRecord :: "jsval \<Rightarrow> bool" where
  "isRecord v = (case v of JArray _ \<Rightarrow> True | JObject _ \<Rightarrow> True | _ \<Rightarrow> False)"

text \<open>Reading a property by destructuring.\<close>

definition get_prop :: "jsval \<Rightarrow> string \<Rightarrow> jsval" where
  "get_prop v k =
     (case v of
        JObject kvs \<Rightarrow> (case map_of kvs k of Some w \<Rightarrow> w | None \<Rightarrow> JUndefined)
      | _ \<Rightarrow> JUndefined)"

definition falsy :: "jsval \<Rightarrow> bool" where
  "falsy v =
     (case v of
        JUndefined \<Rightarrow> True | JNull \<Rightarrow> True | JBool b \<Rightarrow> \<not> b
      | JNumber n \<Rightarrow> n = 0 | JString s \<Rightarrow> s = [] | _ \<Rightarrow> False)"

definition as_string :: "jsval \<Rightarrow> string option" where
  "as_string v = (case v of JString s \<Rightarrow> Some s | _ \<Rightarrow> None)"

text \<open>\<open>Array.isArray(v) && v.every(t => typeof t === 'string')\<close>, with the strings.\<close>

definition as_string_array :: "jsval \<Rightarrow> string list option" where
  "as_string_array v =
     (case v of
        JArray vs \<Rightarrow>
          if list_all (\<lambda>t. as_string t \<noteq> None) vs
          then Some (List.map_filter as_string vs) else None
      | _ \<Rightarrow> None)"

record search_similar_request =
  rq_query :: string
  rq_entityTypes :: "string list option"
  rq_limit :: "rat option"
  rq_searchMode :: "search_mode option"

definition as_search_mode :: "jsval \<Rightarrow> search_mode option" where
  "as_search_mode v =
     (case v of
        JString s \<Rightarrow>
          if s = ''semantic'' then Some Semantic
          else if s = ''keyword'' then Some Keyword
          else if s = ''hybrid'' then Some Hybrid
          else None
      | _ \<Rightarrow> None)"

definition validateSearchSimilarRequest :: "jsval \<Rightarrow> error + search_similar_request" where
  "validateSearchSimilarRequest args =
     (if \<not> isRecord args then Inl (McpError InvalidParams ''Invalid request format'')
      else
        let query = get_prop args ''query'';
            entityTypes = get_prop args ''entityTypes'';
            limit = get_prop args ''limit'';
            searchMode = get_prop args ''searchMode''
        in case as_string query of
             None \<Rightarrow> Inl (McpError InvalidParams ''Missing or invalid query string'')
           | Some q \<Rightarrow>
               if limit \<noteq> JUndefined
                  \<and> (case limit of JNumber n \<Rightarrow> n \<le> 0 | _ \<Rightarrow> True)
               then Inl (McpError InvalidParams ''Invalid limit value'')
               else if entityTypes \<noteq> JUndefined \<and> as_string_array entityTypes = None
               then Inl (McpError InvalidParams ''entityTypes must be array of strings'')
               else if searchMode \<noteq> JUndefined \<and> as_search_mode searchMode = None
               then Inl (McpError InvalidParams
                           ''searchMode must be one of: semantic, keyword, hybrid'')
               else Inr \<lparr>rq_query = q,
                         rq_entityTypes = as_string_array entityTypes,
                         rq_limit = (case limit of JNumber n \<Rightarrow> Some n | _ \<Rightarrow> None),
                         rq_searchMode = as_search_mode searchMode\<rparr>)"

text \<open>\<open>KnowledgeGraphManager.searchSimilar\<close>: \<open>limit\<close> defaults to 50.\<close>

definition KnowledgeGraphManager_searchSimilar ::
  "ext \<Rightarrow> string \<Rightarrow> string list option \<Rightarrow> rat option \<Rightarrow> state
     \<Rightarrow> ((error + search_result list) \<times> state) option" where
  "KnowledgeGraphManager_searchSimilar x query entityTypes limit0 st =
     (let limit = (case limit0 of None \<Rightarrow> 50 | Some l \<Rightarrow> l);
          validLimit = max 1 (min limit 100)
      in searchSimilar x query entityTypes (Some validLimit) None st)"

text \<open>The \<open>catch\<close> of the tool handler: every error becomes an internal error that
  carries its message.\<close>

definition as_internal_error :: "ext \<Rightarrow> error \<Rightarrow> error" where
  "as_internal_error x e = McpError InternalError (error_message x e)"

text \<open>The case \<open>search_similar\<close> of the tool handler, up to the serialisation of the
  results.\<close>

definition search_similar_tool ::
  "ext \<Rightarrow> jsval \<Rightarrow> state \<Rightarrow> ((error + search_result list) \<times> state) option" where
  "search_similar_tool x arguments st =
     (if falsy arguments then Some (Inl (McpError InvalidParams ''Missing arguments''), st)
      else (case validateSearchSimilarRequest arguments of
              Inl e \<Rightarrow> Some (Inl (as_internal_error x e), st)
            | Inr args \<Rightarrow>
                (case KnowledgeGraphManager_searchSimilar x (rq_query args)
                        (rq_entityTypes args) (rq_limit args) st of
                   None \<Rightarrow> None
                 | Some (Inl e, st1) \<Rightarrow> Some (Inl (as_internal_error x e), st1)
                 | Some (Inr results, st1) \<Rightarrow> Some (Inr results, st1))))"

section \<open>QdrantPersistence: the full scan\<close>

text \<open>\<open>str.toLowerCase()\<close>, on the ASCII letters.\<close>

definition toLowerCase :: "string \<Rightarrow> string" where
  "toLowerCase s =
     map (\<lambda>c. if 65 \<le> (of_char c :: nat) \<and> (of_char c :: nat) \<le> 90
              then char_of ((of_char c :: nat) + 32) else c) s"

definition getDefaultVectorSize :: "ext \<Rightarrow> nat" where
  "getDefaultVectorSize x =
     (if map_option toLowerCase (EMBEDDING_PROVIDER x) = Some ''voyage'' then 512 else 1536)"

definition initialize_error :: "ext \<Rightarrow> error \<Rightarrow> error" where
  "initialize_error x e =
     JsError (''Failed to initialize Qdrant collection. Please check server logs for details: ''
              @ error_message x e)"

text \<open>\<open>initialize\<close>: \<open>qd_getCollection\<close> answers with the vector size of the collection's
  configuration, \<open>vectors.size || vectors.dense.size\<close>.\<close>

definition initialize :: "ext \<Rightarrow> state \<Rightarrow> (error + unit) \<times> state" where
  "initialize x st =
     (case connect x st of
        (Inl e, st1) \<Rightarrow> (Inl e, st1)
      | (Inr _, st1) \<Rightarrow>
          if no_collection x then (Inl collection_error, st1)
          else (case qd_getCollections x of
                  Inl e \<Rightarrow> (Inl (initialize_error x e), st1)
                | Inr names \<Rightarrow>
                    if COLLECTION_NAME x \<notin> set (map Some names)
                    then (case qd_createCollection x (getDefaultVectorSize x) of
                            Some e \<Rightarrow> (Inl (initialize_error x e), st1)
                          | None \<Rightarrow> (Inr (), st1\<lparr>vectorSize := getDefaultVectorSize x\<rparr>))
                    else (case qd_getCollection x of
                            Inl e \<Rightarrow> (Inl (initialize_error x e), st1)
                          | Inr None \<Rightarrow> (Inr (), st1)
                          | Inr (Some currentVectorSize) \<Rightarrow>
                              if currentVectorSize = 0 then (Inr (), st1)
                              else (Inr (), st1\<lparr>vectorSize := currentVectorSize\<rparr>))))"

definition MAX_SAFE_INTEGER :: nat where
  "MAX_SAFE_INTEGER = 9007199254740991"

text \<open>\<open>payload.observations || payload.metadata?.observations || []\<close>: an array is truthy.\<close>

definition chunk_observations :: "payload \<Rightarrow> string list" where
  "chunk_observations p =
     (case p_observations p of
        Some os \<Rightarrow> os
      | None \<Rightarrow>
          (case metadata p of
             None \<Rightarrow> []
           | Some m \<Rightarrow> (case m_observations m of Some os \<Rightarrow> os | None \<Rightarrow> [])))"

text \<open>The accumulators of \<open>_getRawData\<close>.\<close>

record raw_data =
  rd_entities :: "entity list"
  rd_relations :: "relation list"
  rd_allEntities :: "entity list"
  rd_entityCount :: nat

definition passesFilter :: "string list option \<Rightarrow> payload \<Rightarrow> bool" where
  "passesFilter entityTypes p =
     (case entityTypes of
        None \<Rightarrow> True
      | Some ts \<Rightarrow>
          if ts = [] then True
          else if actual_entity_types ts \<noteq> []
          then (case payload_entity_type p of
                  None \<Rightarrow> False
                | Some t \<Rightarrow> t \<in> set (actual_entity_types ts))
          else True)"

text \<open>The relation a relation chunk stands for, when \<open>from\<close>, \<open>to\<close> and \<open>relationType\<close> are
  all truthy: \<open>entity_name || from\<close>, \<open>relation_target || to\<close>,
  \<open>relation_type || relationType\<close>.\<close>

definition chunk_relation :: "payload \<Rightarrow> relation option" where
  "chunk_relation p =
     (case (orElse (entity_name p) (p_from p), orElse (relation_target p) (p_to p),
            orElse (relation_type p) (p_relationType p)) of
        (Some f, Some t, Some ty) \<Rightarrow>
          if f \<noteq> [] \<and> t \<noteq> [] \<and> ty \<noteq> []
          then Some \<lparr>rfrom = f, rto = t, relationType = ty\<rparr> else None
      | _ \<Rightarrow> None)"

text \<open>The body of the loop over the points of a page.\<close>

definition process_point :: "nat \<Rightarrow> string list option \<Rightarrow> raw_data \<Rightarrow> payload option \<Rightarrow> raw_data" where
  "process_point maxEntities entityTypes acc pt =
     (case pt of
        None \<Rightarrow> acc
      | Some p \<Rightarrow>
          if p_type p = Some ''chunk'' then
            if chunk_type p = Some ''metadata'' then
              if rd_entityCount acc < maxEntities then
                let entity = \<lparr>name = normalized_name p,
                              entityType = payload_entity_type p,
                              observations = chunk_observations p\<rparr>;
                    acc1 = acc\<lparr>rd_allEntities := rd_allEntities acc @ [entity]\<rparr>
                in if passesFilter entityTypes p
                   then acc1\<lparr>rd_entities := rd_entities acc @ [entity],
                             rd_entityCount := Suc (rd_entityCount acc)\<rparr>
                   else acc1
              else acc
            else if chunk_type p = Some ''relation'' then
              (case chunk_relation p of
                 Some r \<Rightarrow> acc\<lparr>rd_relations := rd_relations acc @ [r]\<rparr>
               | None \<Rightarrow> acc)
            else acc
          else acc)"

definition chunk_scroll_filter :: qfilter where
  "chunk_scroll_filter =
     \<lparr>must = Some [FieldMatch ''type'' (MatchValue ''chunk'')], should = None\<rparr>"

text \<open>
  The \<open>do ... while\<close> loop of \<open>_getRawData\<close>; the second argument bounds the number of
  pages. The loop keeps as offset a string or a number and \<open>undefined\<close> otherwise, so the
  \<open>break\<close> on \<open>entityCount >= maxEntities && offset === null\<close> is never taken: the loop
  ends when the store returns anything but a string or a number as the next offset.
\<close>

fun getRawData_loop ::
  "ext \<Rightarrow> nat \<Rightarrow> nat \<Rightarrow> string list option \<Rightarrow> cursor option \<Rightarrow> raw_data
     \<Rightarrow> (error + raw_data) option" where
  "getRawData_loop x 0 maxEntities entityTypes offset acc = None"
| "getRawData_loop x (Suc fuel) maxEntities entityTypes offset acc =
     (case qd_scroll x \<lparr>sc_limit = 100, sc_offset = offset, sc_filter = chunk_scroll_filter\<rparr> of
        Inl e \<Rightarrow> Some (Inl e)
      | Inr scrollResult \<Rightarrow>
          (let acc1 = foldl (process_point maxEntities entityTypes) acc (sc_points scrollResult)
           in case next_offset (next_page_offset scrollResult) of
                None \<Rightarrow> Some (Inr acc1)
              | Some c \<Rightarrow> getRawData_loop x fuel maxEntities entityTypes (Some c) acc1))"

text \<open>\<open>entityTypeMap\<close>: a later entity of the same name replaces an earlier one.\<close>

definition entityTypeMap :: "entity list \<Rightarrow> string \<Rightarrow> string option" where
  "entityTypeMap allEntities n =
     (case map_of (rev (map (\<lambda>e. (name e, entityType e)) allEntities)) n of
        None \<Rightarrow> None
      | Some t \<Rightarrow> t)"

definition filterRelationsByEntityTypes ::
  "relation list \<Rightarrow> entity list \<Rightarrow> string list option \<Rightarrow> relation list" where
  "filterRelationsByEntityTypes rels allEntities entityTypes =
     (case entityTypes of
        None \<Rightarrow> rels
      | Some ts \<Rightarrow>
          if ts = [] then rels
          else if actual_entity_types ts = [] then rels
          else filter (\<lambda>r.
                 (case entityTypeMap allEntities (rfrom r) of
                    None \<Rightarrow> False | Some t \<Rightarrow> t \<in> set (actual_entity_types ts))
                 \<or> (case entityTypeMap allEntities (rto r) of
                       None \<Rightarrow> False | Some t \<Rightarrow> t \<in> set (actual_entity_types ts)))
               rels)"

definition filterRelationsForEntities :: "relation list \<Rightarrow> entity list \<Rightarrow> relation list" where
  "filterRelationsForEntities rels ents =
     filter (\<lambda>r. rfrom r \<in> set (map name ents) \<or> rto r \<in> set (map name ents)) rels"

text \<open>\<open>limit || Number.MAX_SAFE_INTEGER\<close>: no limit and the limit 0 mean no cap.\<close>

definition maxEntities_of :: "nat option \<Rightarrow> nat" where
  "maxEntities_of limit =
     (case limit of None \<Rightarrow> MAX_SAFE_INTEGER | Some n \<Rightarrow> if n = 0 then MAX_SAFE_INTEGER else n)"

definition empty_raw_data :: raw_data where
  "empty_raw_data =
     \<lparr>rd_entities = [], rd_relations = [], rd_allEntities = [], rd_entityCount = 0\<rparr>"

text \<open>\<open>_getRawData\<close>.\<close>

definition getRawData ::
  "ext \<Rightarrow> nat option \<Rightarrow> string list option \<Rightarrow> (error + knowledge_graph) option" where
  "getRawData x limit entityTypes =
     (case getRawData_loop x (page_budget x) (maxEntities_of limit) entityTypes None
             empty_raw_data of
        None \<Rightarrow> None
      | Some (Inl e) \<Rightarrow> Some (Inl e)
      | Some (Inr acc) \<Rightarrow>
          Some (Inr \<lparr>entities = rd_entities acc,
                     relations = filterRelationsByEntityTypes (rd_relations acc)
                                   (rd_allEntities acc) entityTypes\<rparr>))"

text \<open>\<open>isMetadataChunk\<close>.\<close>

definition isMetadataChunk :: "payload \<Rightarrow> bool" where
  "isMetadataChunk p =
     (p_type p = Some ''chunk'' \<and> chunk_type p = Some ''metadata''
      \<and> entity_name p \<noteq> None \<and> payload_entity_type p \<noteq> None)"

definition implementation_filter :: "string \<Rightarrow> string \<Rightarrow> condition list" where
  "implementation_filter k v =
     [FieldMatch k (MatchValue v), FieldMatch ''chunk_type'' (MatchValue ''implementation'')]"

definition fetched_entity :: "scored_point \<Rightarrow> entity list" where
  "fetched_entity r =
     (case sp_payload r of
        None \<Rightarrow> []
      | Some p \<Rightarrow>
          if isMetadataChunk p
          then [\<lparr>name = interp (entity_name p), entityType = payload_entity_type p,
                 observations = chunk_observations p\<rparr>]
          else [])"

definition fetchEntitiesByNames ::
  "ext \<Rightarrow> string list \<Rightarrow> nat option \<Rightarrow> state \<Rightarrow> error + entity list" where
  "fetchEntitiesByNames x names limit st =
     (let tokenAwareLimit =
            (case limit of
               None \<Rightarrow> min (length names) 400
             | Some n \<Rightarrow> if n = 0 then min (length names) 400 else n)
      in case qd_search x
                \<lparr>sr_vector = replicate (vectorSize st) 0, sr_limit = of_nat tokenAwareLimit,
                 sr_with_payload = True,
                 sr_filter = Some \<lparr>must = Some [FieldMatch ''chunk_type'' (MatchValue ''metadata'')],
                                    should = Some (map (\<lambda>n. FieldMatch ''entity_name''
                                                            (MatchValue n)) names)\<rparr>\<rparr> of
           Inl e \<Rightarrow> Inl e
         | Inr results \<Rightarrow> Inr (concat (map fetched_entity results)))"

datatype graph_mode = Smart | Entities | Relationships | Raw

record scroll_options =
  so_mode :: "graph_mode option"
  so_entityTypes :: "string list option"
  so_limit :: "nat option"

text \<open>The elements of a \<open>Set\<close> in the order of their first insertion.\<close>

definition insertion_order :: "string list \<Rightarrow> string list" where
  "insertion_order xs = rev (remdups (rev xs))"

definition scrollAll ::
  "ext \<Rightarrow> scroll_options option \<Rightarrow> state \<Rightarrow> ((error + knowledge_graph) \<times> state) option" where
  "scrollAll x options st =
     (case initialize x st of
        (Inl e, st1) \<Rightarrow> Some (Inl e, st1)
      | (Inr _, st1) \<Rightarrow>
          if no_collection x then Some (Inl collection_error, st1)
          else
            let mode = (case options of
                          None \<Rightarrow> Smart
                        | Some opts \<Rightarrow> (case so_mode opts of None \<Rightarrow> Smart | Some m \<Rightarrow> m));
                entityTypeFilter = (case options of None \<Rightarrow> None | Some opts \<Rightarrow> so_entityTypes opts);
                limitPerType = (case options of
                                  None \<Rightarrow> 10000
                                | Some opts \<Rightarrow>
                                    (case so_limit opts of
                                       None \<Rightarrow> 10000
                                     | Some n \<Rightarrow> if n = 0 then 10000 else n))
            in (case getRawData x (Some limitPerType) entityTypeFilter of
                  None \<Rightarrow> None
                | Some (Inl e) \<Rightarrow> Some (Inl e, st1)
                | Some (Inr rawData) \<Rightarrow>
                    (let filteredEntities = entities rawData;
                         filteredRelations =
                           (if entityTypeFilter \<noteq> None \<and> entityTypeFilter \<noteq> Some []
                            then filterRelationsForEntities (relations rawData) filteredEntities
                            else relations rawData)
                     in if mode = Relationships
                        then
                          (let relationEntityNames = insertion_order
                                 (concat (map (\<lambda>r. [rfrom r, rto r]) filteredRelations))
                           in case fetchEntitiesByNames x relationEntityNames
                                     (Some limitPerType) st1 of
                                Inl e \<Rightarrow> Some (Inl e, st1)
                              | Inr matchedEntities \<Rightarrow>
                                  Some (Inr \<lparr>entities = matchedEntities,
                                             relations = filter
                                               (\<lambda>r. rfrom r \<in> set (map name matchedEntities)
                                                   \<and> rto r \<in> set (map name matchedEntities))
                                               filteredRelations\<rparr>, st1))
                        else Some (Inr \<lparr>entities = filteredEntities,
                                        relations = filteredRelations\<rparr>, st1))))"

section \<open>KnowledgeGraphManager\<close>

definition empty_graph :: knowledge_graph where
  "empty_graph = \<lparr>entities = [], relations = []\<rparr>"

text \<open>\<open>getGraph\<close> and \<open>getRawGraph\<close>: the \<open>catch\<close> returns the empty graph.\<close>

definition getGraph ::
  "ext \<Rightarrow> scroll_options option \<Rightarrow> state \<Rightarrow> ((error + knowledge_graph) \<times> state) option" where
  "getGraph x options st =
     (case scrollAll x options st of
        None \<Rightarrow> None
      | Some (Inl e, st1) \<Rightarrow> Some (Inr empty_graph, st1)
      | Some (Inr g, st1) \<Rightarrow> Some (Inr g, st1))"

definition getRawGraph ::
  "ext \<Rightarrow> nat option \<Rightarrow> string list option \<Rightarrow> state
     \<Rightarrow> ((error + knowledge_graph) \<times> state) option" where
  "getRawGraph x limit entityTypes st =
     (case scrollAll x (Some \<lparr>so_mode = Some Raw, so_entityTypes = entityTypes,
                               so_limit = limit\<rparr>) st of
        None \<Rightarrow> None
      | Some (Inl e, st1) \<Rightarrow> Some (Inr empty_graph, st1)
      | Some (Inr rawData, st1) \<Rightarrow> Some (Inr rawData, st1))"

text \<open>The loop of \<open>addRelations\<close> over the relations of the request.\<close>

fun addRelations_loop ::
  "ext \<Rightarrow> entity list \<Rightarrow> relation list \<Rightarrow> state \<Rightarrow> (error + unit) \<times> state" where
  "addRelations_loop x currentEntities [] st = (Inr (), st)"
| "addRelations_loop x currentEntities (r # rs) st =
     (if \<not> list_ex (\<lambda>e. name e = rfrom r) currentEntities
      then (Inl (JsError (''Entity not found: '' @ rfrom r)), st)
      else if \<not> list_ex (\<lambda>e. name e = rto r) currentEntities
      then (Inl (JsError (''Entity not found: '' @ rto r)), st)
      else (case persistRelation x r st of
              (Inl e, st1) \<Rightarrow> (Inl e, st1)
            | (Inr _, st1) \<Rightarrow> addRelations_loop x currentEntities rs st1))"

definition addRelations ::
  "ext \<Rightarrow> relation list \<Rightarrow> state \<Rightarrow> ((error + unit) \<times> state) option" where
  "addRelations x rels st =
     (case getRawGraph x (Some MAX_SAFE_INTEGER) None st of
        None \<Rightarrow> None
      | Some (Inl e, st1) \<Rightarrow> Some (Inl e, st1)
      | Some (Inr currentGraph, st1) \<Rightarrow>
          Some (addRelations_loop x (entities currentGraph) rels st1))"

section \<open>QdrantPersistence: implementation chunks and their scope\<close>

datatype scope = Minimal | Logical | Dependencies

text \<open>\<open>SemanticMetadata\<close> of types.ts, as \<open>extractSemanticMetadata\<close> fills it.\<close>

record semantic_metadata_info =
  calls :: "string list"
  imports_used :: "string list"
  md_file_path :: "string option"
  exceptions_handled :: "string list option"
  complexity :: "nat option"
  inferred_types :: "string list option"

definition implementation_result :: "scored_point \<Rightarrow> search_result list" where
  "implementation_result r =
     (case sp_payload r of
        None \<Rightarrow> []
      | Some p \<Rightarrow>
          if chunk_type p = Some ''implementation''
          then [\<lparr>score = sp_score r, data = p\<lparr>has_implementation := Some False\<rparr>\<rparr>]
          else [])"

text \<open>\<open>getEntityImplementation\<close>: a filter-only search with the all-zero vector; the \<open>catch\<close>
  returns the empty list.\<close>

definition getEntityImplementation :: "ext \<Rightarrow> string \<Rightarrow> state \<Rightarrow> search_result list" where
  "getEntityImplementation x entityName st =
     (case qd_search x
             \<lparr>sr_vector = replicate (vectorSize st) 0, sr_limit = 50, sr_with_payload = True,
              sr_filter = Some \<lparr>must = Some (implementation_filter ''entity_name'' entityName),
                                 should = None\<rparr>\<rparr> of
        Inl e \<Rightarrow> []
      | Inr results \<Rightarrow> concat (map implementation_result results))"

text \<open>The classes \<open>\w\<close> and \<open>\s\<close> of the regular expressions, on bytes: the ASCII letters,
  digits and the underscore, and the ASCII white space.\<close>

definition is_word_char :: "char \<Rightarrow> bool" where
  "is_word_char c =
     (let n = (of_char c :: nat)
      in (48 \<le> n \<and> n \<le> 57) \<or> (65 \<le> n \<and> n \<le> 90) \<or> (97 \<le> n \<and> n \<le> 122) \<or> n = 95)"

text \<open>
  The matches of \<open>/(\w+)\s*\(/g\<close>, each without its trailing \<open>\s*\(\<close>: a maximal run of
  word characters counts when white space and then an opening parenthesis follow it. The
  scan keeps the run read so far and whether white space followed it.
\<close>

fun scan_calls :: "string \<Rightarrow> string \<Rightarrow> bool \<Rightarrow> string list" where
  "scan_calls [] w sp = []"
| "scan_calls (c # cs) w sp =
     (if is_word_char c then (if sp then scan_calls cs [c] False else scan_calls cs (w @ [c]) False)
      else if is_space c then (if w = [] then scan_calls cs [] False else scan_calls cs w True)
      else if c = CHR ''('' then (if w \<noteq> [] then w # scan_calls cs [] False
                                 else scan_calls cs [] False)
      else scan_calls cs [] False)"

definition extractCalls :: "string \<Rightarrow> string list" where
  "extractCalls content' = take 10 (filter (\<lambda>call. length call > 1) (scan_calls content' [] False))"

text \<open>The text after a leading \<open>import\<close> or \<open>from\<close>.\<close>

definition keyword_rest :: "string \<Rightarrow> string option" where
  "keyword_rest s =
     (if take 6 s = ''import'' then Some (drop 6 s)
      else if take 4 s = ''from'' then Some (drop 4 s)
      else None)"

lemma keyword_rest_length: "keyword_rest s = Some rest \<Longrightarrow> length rest \<le> length s"
  by (auto simp: keyword_rest_def split: if_splits)

lemma dropWhile_word_shorter:
  "takeWhile P xs \<noteq> [] \<Longrightarrow> length (dropWhile P xs) < length xs"
  by (cases xs) (auto simp: le_imp_less_Suc length_dropWhile_le split: if_splits)

text \<open>
  The matches of \<open>/(?:import|from)\s+(\w+)/g\<close>, each without its leading
  \<open>(?:import|from)\s+\<close>: the word that follows the keyword and at least one white space.
  The search for the next match goes on after the word.
\<close>

function scan_imports :: "string \<Rightarrow> string list" where
  "scan_imports [] = []"
| "scan_imports (c # cs) =
     (case keyword_rest (c # cs) of
        None \<Rightarrow> scan_imports cs
      | Some rest \<Rightarrow>
          if takeWhile is_space rest \<noteq> []
             \<and> takeWhile is_word_char (dropWhile is_space rest) \<noteq> []
          then takeWhile is_word_char (dropWhile is_space rest)
               # scan_imports (dropWhile is_word_char (dropWhile is_space rest))
          else scan_imports cs)"
  by pat_completeness auto
termination
proof (relation "measure length", goal_cases)
  case 1
  show ?case by simp
next
  case (2 c cs)
  show ?case by simp
next
  case (3 c cs rest)
  then have "length (dropWhile is_word_char (dropWhile is_space rest))
             < length (dropWhile is_space rest)"
    using dropWhile_word_shorter by blast
  also have "\<dots> \<le> length rest" by (rule length_dropWhile_le)
  also have "\<dots> \<le> length (c # cs)" using 3 keyword_rest_length by blast
  finally show ?case by simp
next
  case (4 c cs rest)
  show ?case by simp
qed

definition extractImports :: "string \<Rightarrow> string list" where
  "extractImports content' = take 10 (filter (\<lambda>imp. length imp > 0) (scan_imports content'))"

text \<open>\<open>extractSemanticMetadata\<close>. Without structured metadata the content of the first
  result is parsed; \<open>content.match\<close> on a chunk without content is a \<open>TypeError\<close>.\<close>

definition extractSemanticMetadata :: "search_result list \<Rightarrow> error + semantic_metadata_info" where
  "extractSemanticMetadata baseResults =
     (case baseResults of
        [] \<Rightarrow> Inr \<lparr>calls = [], imports_used = [], md_file_path = None,
                   exceptions_handled = None, complexity = None, inferred_types = None\<rparr>
      | firstResult # _ \<Rightarrow>
          (let filePath = (case metadata (data firstResult) of
                             None \<Rightarrow> None | Some m \<Rightarrow> m_file_path m)
           in case semantic_metadata (data firstResult) of
                Some structuredMetadata \<Rightarrow>
                  Inr \<lparr>calls = (case sm_calls structuredMetadata of Some c \<Rightarrow> c | None \<Rightarrow> []),
                       imports_used = (case sm_imports_used structuredMetadata of
                                         Some i \<Rightarrow> i | None \<Rightarrow> []),
                       md_file_path = filePath,
                       exceptions_handled =
                         Some (case sm_exceptions_handled structuredMetadata of
                                 Some e \<Rightarrow> e | None \<Rightarrow> []),
                       complexity = sm_complexity structuredMetadata,
                       inferred_types =
                         Some (case sm_inferred_types structuredMetadata of
                                 Some t \<Rightarrow> t | None \<Rightarrow> [])\<rparr>
              | None \<Rightarrow>
                  (case content (data firstResult) of
                     None \<Rightarrow> Inl (JsError
                       ''Cannot read properties of undefined (reading 'match')'')
                   | Some c \<Rightarrow>
                       Inr \<lparr>calls = extractCalls c, imports_used = extractImports c,
                            md_file_path = filePath, exceptions_handled = None,
                            complexity = None, inferred_types = None\<rparr>)))"

text \<open>\<open>mergeAndDeduplicate\<close>: the map from each name to its best result (a later result
  replaces an earlier one only with a strictly higher score), then the best result of each
  name at the place of the name's first occurrence.\<close>

fun best_by_key ::
  "(string \<rightharpoonup> search_result) \<Rightarrow> search_result list \<Rightarrow> (string \<rightharpoonup> search_result)" where
  "best_by_key entityMap [] = entityMap"
| "best_by_key entityMap (r # rs) =
     best_by_key
       (case entityMap (result_key r) of
          None \<Rightarrow> entityMap(result_key r \<mapsto> r)
        | Some existing \<Rightarrow>
            if score r > score existing then entityMap(result_key r \<mapsto> r) else entityMap)
       rs"

fun first_occurrences ::
  "(string \<rightharpoonup> search_result) \<Rightarrow> string list \<Rightarrow> search_result list \<Rightarrow> search_result list" where
  "first_occurrences entityMap processedKeys [] = []"
| "first_occurrences entityMap processedKeys (r # rs) =
     (if result_key r \<in> set processedKeys then first_occurrences entityMap processedKeys rs
      else (case entityMap (result_key r) of None \<Rightarrow> [] | Some b \<Rightarrow> [b])
           @ first_occurrences entityMap (result_key r # processedKeys) rs)"

definition mergeAndDeduplicate :: "search_result list \<Rightarrow> search_result list" where
  "mergeAndDeduplicate results = first_occurrences (best_by_key Map.empty results) [] results"

text \<open>\<open>payload.entity_name || ''\<close>.\<close>

definition name_or_empty :: "payload \<Rightarrow> string" where
  "name_or_empty p = (case entity_name p of None \<Rightarrow> [] | Some n \<Rightarrow> n)"

definition helper_result :: "semantic_metadata_info \<Rightarrow> scored_point \<Rightarrow> search_result list" where
  "helper_result md r =
     (case sp_payload r of
        None \<Rightarrow> []
      | Some p \<Rightarrow>
          (let entityName = name_or_empty p;
               isCalled = (entityName \<in> set (calls md));
               isPrivateHelper = (take 1 entityName = ''_'')
           in if isCalled \<or> isPrivateHelper
              then [\<lparr>score = sp_score r, data = p\<lparr>has_implementation := Some False\<rparr>\<rparr>]
              else []))"

text \<open>\<open>limit || d\<close>.\<close>

definition limit_or :: "nat option \<Rightarrow> nat \<Rightarrow> nat" where
  "limit_or limit d = (case limit of None \<Rightarrow> d | Some n \<Rightarrow> if n = 0 then d else n)"

definition expandLogicalScope ::
  "ext \<Rightarrow> search_result list \<Rightarrow> semantic_metadata_info \<Rightarrow> nat option \<Rightarrow> state
     \<Rightarrow> search_result list" where
  "expandLogicalScope x baseResults md limit st =
     (case md_file_path md of
        None \<Rightarrow> baseResults
      | Some fp \<Rightarrow>
          if fp = [] then baseResults
          else
            (case qd_search x
                    \<lparr>sr_vector = replicate (vectorSize st) 0,
                     sr_limit = of_nat (limit_or limit 12), sr_with_payload = True,
                     sr_filter = Some
                       \<lparr>must = Some (implementation_filter ''file_path'' fp),
                        should = Some (if calls md \<noteq> []
                                       then [FieldMatch ''entity_name'' (MatchAny (calls md))]
                                       else [])\<rparr>\<rparr> of
               Inl e \<Rightarrow> baseResults
             | Inr helperResults \<Rightarrow>
                 mergeAndDeduplicate
                   (baseResults @ concat (map (helper_result md) helperResults))))"

definition dependency_result :: "scored_point \<Rightarrow> search_result list" where
  "dependency_result r =
     (case sp_payload r of
        None \<Rightarrow> []
      | Some p \<Rightarrow> [\<lparr>score = sp_score r, data = p\<lparr>has_implementation := Some False\<rparr>\<rparr>])"

definition expandDependencyScope ::
  "ext \<Rightarrow> search_result list \<Rightarrow> semantic_metadata_info \<Rightarrow> nat option \<Rightarrow> state
     \<Rightarrow> search_result list" where
  "expandDependencyScope x baseResults md limit st =
     (if imports_used md = [] \<and> calls md = [] then baseResults
      else
        (case qd_search x
                \<lparr>sr_vector = replicate (vectorSize st) 0,
                 sr_limit = of_nat (limit_or limit 40), sr_with_payload = True,
                 sr_filter = Some
                   \<lparr>must = Some [FieldMatch ''chunk_type'' (MatchValue ''implementation'')],
                    should = Some [FieldMatch ''entity_name'' (MatchAny (imports_used md)),
                                   FieldMatch ''entity_name'' (MatchAny (calls md))]\<rparr>\<rparr> of
           Inl e \<Rightarrow> baseResults
         | Inr dependencyResults \<Rightarrow>
             mergeAndDeduplicate
               (baseResults @ concat (map dependency_result dependencyResults))))"

definition getImplementationChunks ::
  "ext \<Rightarrow> string \<Rightarrow> scope option \<Rightarrow> nat option \<Rightarrow> state
     \<Rightarrow> (error + search_result list) \<times> state" where
  "getImplementationChunks x entityName scope0 limit st =
     (case connect x st of
        (Inl e, st1) \<Rightarrow> (Inl e, st1)
      | (Inr _, st1) \<Rightarrow>
          if no_collection x then (Inl collection_error, st1)
          else
            (let baseResults = getEntityImplementation x entityName st1
             in case (case scope0 of None \<Rightarrow> Minimal | Some s \<Rightarrow> s) of
                  Minimal \<Rightarrow> (Inr baseResults, st1)
                | Logical \<Rightarrow>
                    (case extractSemanticMetadata baseResults of
                       Inl e \<Rightarrow> (Inl e, st1)
                     | Inr md \<Rightarrow> (Inr (expandLogicalScope x baseResults md limit st1), st1))
                | Dependencies \<Rightarrow>
                    (case extractSemanticMetadata baseResults of
                       Inl e \<Rightarrow> (Inl e, st1)
                     | Inr md \<Rightarrow> (Inr (expandDependencyScope x baseResults md limit st1), st1))))"

section \<open>StreamingResponseBuilder: the flat views\<close>

text \<open>\<open>TokenBudget\<close> of types.ts.\<close>

record token_budget =
  tb_total :: nat
  tb_used :: nat
  tb_remaining :: nat

text \<open>The token counter of tokenCounter.ts, which is not among the sources: its functions
  are parameters.\<close>

record token_counter =
  DEFAULT_TOKEN_LIMIT :: nat
  createBudget :: "nat \<Rightarrow> token_budget"
  fitsInBudget :: "token_budget \<Rightarrow> knowledge_graph \<Rightarrow> bool"
  estimateTokensWithFormatting :: "knowledge_graph \<Rightarrow> nat"

record response_meta =
  tokenCount :: nat
  tokenLimit :: nat
  truncated :: bool
  truncationReason :: "string option"
  sectionsIncluded :: "string list"

text \<open>\<open>StreamingGraphResponse\<close>: \<open>rs_content\<close> and \<open>rs_meta\<close> are the fields \<open>content\<close> and
  \<open>meta\<close>.\<close>

record streaming_response =
  rs_content :: knowledge_graph
  rs_meta :: response_meta

text \<open>What a builder reads of its context.\<close>

record build_context =
  ctx_entities :: "entity list"
  ctx_relations :: "relation list"
  ctx_budget :: token_budget

text \<open>The decimal digits of a number in a template.\<close>

fun show_nat :: "nat \<Rightarrow> string" where
  "show_nat n =
     (if n < 10 then [''0123456789'' ! n]
      else show_nat (n div 10) @ [''0123456789'' ! (n mod 10)])"

declare show_nat.simps [simp del]

text \<open>
  The \<open>while\<close> loop of \<open>fitContentToBudget\<close>, with the flag \<open>truncated\<close>. The reducer is a
  parameter of the source, so the loop need not end: no result is \<open>None\<close>.
\<close>

partial_function (option) fit_loop ::
  "(knowledge_graph \<Rightarrow> bool) \<Rightarrow> (knowledge_graph \<Rightarrow> knowledge_graph) \<Rightarrow> knowledge_graph \<Rightarrow> bool
     \<Rightarrow> (knowledge_graph \<times> bool) option" where
  "fit_loop fits reducer current flag =
     (if entities current \<noteq> [] \<or> relations current \<noteq> []
      then (if fits current then Some (current, flag)
            else (if entities (reducer current) = [] \<and> relations (reducer current) = []
                  then Some (reducer current, True)
                  else fit_loop fits reducer (reducer current) True))
      else Some (current, flag))"

definition fitContentToBudget ::
  "token_counter \<Rightarrow> knowledge_graph \<Rightarrow> token_budget \<Rightarrow> (knowledge_graph \<Rightarrow> knowledge_graph)
     \<Rightarrow> (knowledge_graph \<times> bool) option" where
  "fitContentToBudget tc content0 budget reducer =
     (if fitsInBudget tc budget content0 then Some (content0, False)
      else fit_loop (fitsInBudget tc budget) reducer content0 False)"

text \<open>
  \<open>xs.slice(0, Math.floor(xs.length * 0.8))\<close>. The double nearest to 0.8 lies above 0.8 by
  less than 1e-16, so for every length of a list the floor of the product is the floor of
  \<open>4n/5\<close>.
\<close>

definition shrink :: "'a list \<Rightarrow> 'a list" where
  "shrink xs = take ((length xs * 4) div 5) xs"

definition filterAndLimitEntities :: "entity list \<Rightarrow> scroll_options \<Rightarrow> entity list" where
  "filterAndLimitEntities ents options =
     (let result =
            (case so_entityTypes options of
               None \<Rightarrow> ents
             | Some ts \<Rightarrow>
                 if ts = [] then ents
                 else filter (\<lambda>e. entityType e \<in> set (map Some ts)) ents)
      in case so_limit options of
           None \<Rightarrow> result
         | Some n \<Rightarrow> if n = 0 then result else take n result)"

definition buildEntitiesStreamingResponse ::
  "token_counter \<Rightarrow> build_context \<Rightarrow> scroll_options \<Rightarrow> streaming_response option" where
  "buildEntitiesStreamingResponse tc context options =
     (let filteredEntities = filterAndLimitEntities (ctx_entities context) options
      in case fitContentToBudget tc \<lparr>entities = filteredEntities, relations = []\<rparr>
                (ctx_budget context) (\<lambda>c. c\<lparr>entities := shrink (entities c)\<rparr>) of
           None \<Rightarrow> None
         | Some (result, flag) \<Rightarrow>
             Some \<lparr>rs_content = result,
                   rs_meta = \<lparr>tokenCount = estimateTokensWithFormatting tc result,
                              tokenLimit = tb_total (ctx_budget context),
                              truncated = flag,
                              truncationReason =
                                (if flag
                                 then Some (''Reduced from '' @ show_nat (length filteredEntities)
                                            @ '' to '' @ show_nat (length (entities result))
                                            @ '' entities'')
                                 else None),
                              sectionsIncluded = [''entities'']\<rparr>\<rparr>)"

definition buildRelationshipsStreamingResponse ::
  "token_counter \<Rightarrow> build_context \<Rightarrow> streaming_response option" where
  "buildRelationshipsStreamingResponse tc context =
     (case fitContentToBudget tc \<lparr>entities = [], relations = ctx_relations context\<rparr>
             (ctx_budget context) (\<lambda>c. c\<lparr>relations := shrink (relations c)\<rparr>) of
        None \<Rightarrow> None
      | Some (result, flag) \<Rightarrow>
          Some \<lparr>rs_content = result,
                rs_meta = \<lparr>tokenCount = estimateTokensWithFormatting tc result,
                           tokenLimit = tb_total (ctx_budget context),
                           truncated = flag,
                           truncationReason =
                             (if flag
                              then Some (''Reduced from ''
                                         @ show_nat (length (ctx_relations context))
                                         @ '' to '' @ show_nat (length (relations result))
                                         @ '' relations'')
                              else None),
                           sectionsIncluded = [''relations'']\<rparr>\<rparr>)"

definition buildRawStreamingResponse :: "token_counter \<Rightarrow> build_context \<Rightarrow> streaming_response" where
  "buildRawStreamingResponse tc context =
     (let rawResponse = \<lparr>entities = ctx_entities context, relations = ctx_relations context\<rparr>
      in if fitsInBudget tc (ctx_budget context) rawResponse
         then \<lparr>rs_content = rawResponse,
               rs_meta = \<lparr>tokenCount = estimateTokensWithFormatting tc rawResponse,
                          tokenLimit = tb_total (ctx_budget context),
                          truncated = False,
                          truncationReason = None,
                          sectionsIncluded = [''entities'', ''relations'']\<rparr>\<rparr>
         else \<lparr>rs_content = \<lparr>entities = [], relations = []\<rparr>,
               rs_meta = \<lparr>tokenCount = 0,
                          tokenLimit = tb_total (ctx_budget context),
                          truncated = True,
                          truncationReason = Some
                            ''Raw response too large - use smart, entities, or relationships mode with limits'',
                          sectionsIncluded = []\<rparr>\<rparr>)"

text \<open>
  The backoff in the words of the spec: the list is shrunk to 80% of its previous length
  until it fits or is empty. \<open>backoff_length fits n\<close> is the length that is left of a list
  of length \<open>n\<close>, where \<open>fits m\<close> says whether its first \<open>m\<close> elements fit.
\<close>

function backoff_length :: "(nat \<Rightarrow> bool) \<Rightarrow> nat \<Rightarrow> nat" where
  "backoff_length fits n =
     (if n = 0 \<or> fits n then n else backoff_length fits ((n * 4) div 5))"
  by pat_completeness auto
termination
  by (relation "measure snd") auto

declare backoff_length.simps [simp del]

section \<open>Notions used to state the properties of the scan\<close>

text \<open>
  \<open>scan_pages x offset pages\<close>, in the terms of the store: asked for the chunks from
  \<open>offset\<close> on, the store answers with the pages \<open>pages\<close>, one after the other, each but the
  last with the cursor of the next one, a string or a number, and the last with \<open>null\<close> or
  without \<open>next_page_offset\<close>: there the cursor of the store is exhausted. A page whose
  \<open>next_page_offset\<close> is of another kind is neither: the store has more, and the loop of
  \<open>_getRawData\<close> cannot ask for it.
\<close>

fun scan_pages :: "ext \<Rightarrow> cursor option \<Rightarrow> scroll_result list \<Rightarrow> bool" where
  "scan_pages x offset [] = False"
| "scan_pages x offset [p] =
     (qd_scroll x \<lparr>sc_limit = 100, sc_offset = offset, sc_filter = chunk_scroll_filter\<rparr> = Inr p
      \<and> (next_page_offset p = OffNull \<or> next_page_offset p = OffUndefined))"
| "scan_pages x offset (p # q # ps) =
     (qd_scroll x \<lparr>sc_limit = 100, sc_offset = offset, sc_filter = chunk_scroll_filter\<rparr> = Inr p
      \<and> (case next_page_offset p of
            OffCursor c \<Rightarrow> scan_pages x (Some c) (q # ps)
          | _ \<Rightarrow> False))"

text \<open>The relation a point of a page stands for, if it is a relation chunk with all three
  fields.\<close>

definition point_relation :: "payload option \<Rightarrow> relation option" where
  "point_relation pt =
     (case pt of
        None \<Rightarrow> None
      | Some p \<Rightarrow>
          if p_type p = Some ''chunk'' \<and> chunk_type p = Some ''relation''
          then chunk_relation p else None)"

section \<open>A sample environment\<close>

text \<open>
  A small concrete environment and instance state, for evaluating the definitions: a
  collection named \<open>memory\<close>, a store that answers every search with the implementation
  chunk of \<open>D1\<close> and every scan with one last page holding the metadata chunk of \<open>D2\<close>, and
  a keyword index that returns every document it holds, and a fusion whose ranks start at 1
  in both lists.
\<close>

definition sample_chunk :: "string \<Rightarrow> string \<Rightarrow> payload" where
  "sample_chunk kind n =
     empty_payload\<lparr>p_type := Some ''chunk'', chunk_type := Some kind, entity_name := Some n\<rparr>"

definition sample_ext :: ext where
  "sample_ext =
     \<lparr>COLLECTION_NAME = Some ''memory'',
      EMBEDDING_PROVIDER = None,
      sha256 = (\<lambda>s. 0),
      generateEmbedding = (\<lambda>t. Inr [1]),
      clock = (\<lambda>n. replicate n (CHR ''t'')),
      sdk_message = (\<lambda>c m. m),
      qd_getCollections = Inr [''memory''],
      qd_createCollection = (\<lambda>n. None),
      qd_getCollection = Inr (Some 1536),
      qd_upsert_error = (\<lambda>i. None),
      qd_search = (\<lambda>req. Inr (if 1 \<le> sr_limit req
                   then [\<lparr>sp_score = 1 / 2,
                          sp_payload = Some (sample_chunk ''implementation'' ''D1'')\<rparr>]
                   else [])),
      qd_scroll = (\<lambda>req. Inr \<lparr>sc_points = [Some (sample_chunk ''metadata'' ''D2'')],
                                next_page_offset = OffNull\<rparr>),
      page_budget = Suc (Suc (Suc (Suc 0))),
      bm25_search = (\<lambda>docs q lim ets.
                       map (\<lambda>d. \<lparr>documentId = interp (doc_id d), br_score = 1,
                                  br_document = d\<rparr>) docs),
      bm25_convert = (\<lambda>r coll. \<lparr>score = br_score r, data = doc_chunk (br_document r)\<rparr>),
      semantic_first_rank = 1,
      keyword_first_rank = 1\<rparr>"

definition sample_state :: state where
  "sample_state =
     \<lparr>initialized = True, vectorSize = 1536, bm25_documents = [], ticks = 0,
      points = Map.empty\<rparr>"

text \<open>The store ranks \<open>D1\<close>, \<open>D2\<close>, \<open>D3\<close> for every search, and the keyword index holds
  \<open>D3\<close> and \<open>D1\<close>, in this order.\<close>

definition ranked_ext :: ext where
  "ranked_ext =
     sample_ext\<lparr>qd_search := (\<lambda>req. Inr
       [\<lparr>sp_score = 9 / 10, sp_payload = Some (sample_chunk ''implementation'' ''D1'')\<rparr>,
        \<lparr>sp_score = 8 / 10, sp_payload = Some (sample_chunk ''implementation'' ''D2'')\<rparr>,
        \<lparr>sp_score = 7 / 10, sp_payload = Some (sample_chunk ''implementation'' ''D3'')\<rparr>])\<rparr>"



text \<open>The entity \<open>foo\<close> with one observation, and the relation \<open>A calls B\<close>.\<close>

definition foo :: "string \<Rightarrow> entity" where
  "foo obs = \<lparr>name = ''foo'', entityType = Some ''function'', observations = [obs]\<rparr>"

definition a_calls_b :: relation where
  "a_calls_b = \<lparr>rfrom = ''A'', rto = ''B'', relationType = ''calls''\<rparr>"

text \<open>A store that serves its chunks in two pages: the entities \<open>E1\<close>, \<open>E2\<close> and the relation
  \<open>E1 calls E2\<close>, then the entity \<open>E3\<close> and the relation \<open>E3 calls E1\<close>.\<close>

definition relation_chunk :: "string \<Rightarrow> string \<Rightarrow> string \<Rightarrow> payload" where
  "relation_chunk f ty t =
     empty_payload\<lparr>p_type := Some ''chunk'', chunk_type := Some ''relation'',
       entity_name := Some f, relation_target := Some t, relation_type := Some ty\<rparr>"

definition page1 :: scroll_result where
  "page1 = \<lparr>sc_points = [Some (sample_chunk ''metadata'' ''E1''),
                         Some (sample_chunk ''metadata'' ''E2''),
                         Some (relation_chunk ''E1'' ''calls'' ''E2'')],
            next_page_offset = OffCursor (CursorNum 7)\<rparr>"

definition page2 :: scroll_result where
  "page2 = \<lparr>sc_points = [Some (sample_chunk ''metadata'' ''E3''),
                         Some (relation_chunk ''E3'' ''calls'' ''E1'')],
            next_page_offset = OffNull\<rparr>"

definition paged_ext :: ext where
  "paged_ext =
     sample_ext\<lparr>qd_scroll := (\<lambda>req. if sc_offset req = None then Inr page1 else Inr page2)\<rparr>"

text \<open>A store with three functions and a call between the last two, in two pages: the entities
  \<open>E1\<close> and \<open>E2\<close>, then the entity \<open>E3\<close> and the relation \<open>E2 calls E3\<close>.\<close>

definition function_chunk :: "string \<Rightarrow> payload" where
  "function_chunk n = (sample_chunk ''metadata'' n)\<lparr>entity_type := Some ''function''\<rparr>"

definition typed_page1 :: scroll_result where
  "typed_page1 = \<lparr>sc_points = [Some (function_chunk ''E1''), Some (function_chunk ''E2'')],
                  next_page_offset = OffCursor (CursorNum 7)\<rparr>"

definition typed_page2 :: scroll_result where
  "typed_page2 = \<lparr>sc_points = [Some (function_chunk ''E3''),
                               Some (relation_chunk ''E2'' ''calls'' ''E3'')],
                  next_page_offset = OffNull\<rparr>"

definition typed_ext :: ext where
  "typed_ext =
     sample_ext\<lparr>qd_scroll := (\<lambda>req. if sc_offset req = None then Inr typed_page1
                                   else Inr typed_page2)\<rparr>"

text \<open>A store that refuses every search and every scan.\<close>

definition down_ext :: ext where
  "down_ext =
     sample_ext\<lparr>qd_search := (\<lambda>req. Inl (JsError ''connection refused'')),
                qd_scroll := (\<lambda>req. Inl (JsError ''connection refused''))\<rparr>"

text \<open>
  A store with implementation chunks: \<open>run\<close> in \<open>a.py\<close>, which imports \<open>json\<close> and calls
  \<open>helper\<close>. The search for the chunks of \<open>run\<close> returns it with score 1/2; the search in
  \<open>a.py\<close> returns \<open>run\<close>, \<open>helper\<close>, \<open>_private\<close> and \<open>other\<close>; every other search returns \<open>helper\<close>,
  \<open>json\<close> and \<open>run\<close>, the last with score 9/10.
\<close>

definition impl_chunk :: "string \<Rightarrow> string \<Rightarrow> payload" where
  "impl_chunk n c =
     empty_payload\<lparr>p_type := Some ''chunk'', chunk_type := Some ''implementation'',
       entity_name := Some n, content := Some c,
       metadata := Some \<lparr>m_entity_type = None, m_observations = None,
                          m_file_path = Some ''a.py'', m_line_number = None,
                          m_end_line_number = None, m_has_implementation = None\<rparr>\<rparr>"

definition impl_point :: "rat \<Rightarrow> string \<Rightarrow> string \<Rightarrow> scored_point" where
  "impl_point s n c = \<lparr>sp_score = s, sp_payload = Some (impl_chunk n c)\<rparr>"

definition impl_result :: "rat \<Rightarrow> string \<Rightarrow> string \<Rightarrow> search_result" where
  "impl_result s n c = \<lparr>score = s, data = (impl_chunk n c)\<lparr>has_implementation := Some False\<rparr>\<rparr>"

definition impl_ext :: ext where
  "impl_ext =
     sample_ext\<lparr>qd_search := (\<lambda>req.
       case sr_filter req of
         None \<Rightarrow> Inr []
       | Some f \<Rightarrow>
           if must f = Some (implementation_filter ''entity_name'' ''run'')
           then Inr [impl_point (1 / 2) ''run'' ''import json helper(1)'']
           else if must f = Some (implementation_filter ''file_path'' ''a.py'')
           then Inr [impl_point (9 / 10) ''run'' ''import json helper(1)'',
                     impl_point (4 / 10) ''helper'' ''pass'',
                     impl_point (3 / 10) ''_private'' ''pass'',
                     impl_point (2 / 10) ''other'' ''pass'']
           else Inr [impl_point (4 / 10) ''helper'' ''pass'',
                     impl_point (1 / 10) ''json'' ''pass'',
                     impl_point (9 / 10) ''run'' ''import json helper(1)''])\<rparr>"

text \<open>A token counter that counts one token for each entity and each relation, and a
  context with five entities and room for four tokens.\<close>

definition counting_tc :: token_counter where
  "counting_tc =
     \<lparr>DEFAULT_TOKEN_LIMIT = 4,
      createBudget = (\<lambda>n. \<lparr>tb_total = n, tb_used = 0, tb_remaining = n\<rparr>),
      fitsInBudget = (\<lambda>b g. length (entities g) + length (relations g) \<le> tb_remaining b),
      estimateTokensWithFormatting = (\<lambda>g. length (entities g) + length (relations g))\<rparr>"

definition five_entities :: "entity list" where
  "five_entities =
     map (\<lambda>n. \<lparr>name = n, entityType = Some ''function'', observations = []\<rparr>)
       [''a'', ''b'', ''c'', ''d'', ''e'']"

definition five_context :: build_context where
  "five_context =
     \<lparr>ctx_entities = five_entities, ctx_relations = [],
      ctx_budget = \<lparr>tb_total = 4, tb_used = 0, tb_remaining = 4\<rparr>\<rparr>"

section \<open>Evaluating the sample environment\<close>

lemma sample_ext_sel [simp]:
  "COLLECTION_NAME sample_ext = Some ''memory''"
  "EMBEDDING_PROVIDER sample_ext = None"
  "sha256 sample_ext s = 0"
  "generateEmbedding sample_ext t = Inr [1]"
  "clock sample_ext n = replicate n (CHR ''t'')"
  "sdk_message sample_ext c m = m"
  "qd_getCollections sample_ext = Inr [''memory'']"
  "qd_createCollection sample_ext k = None"
  "qd_getCollection sample_ext = Inr (Some 1536)"
  "qd_upsert_error sample_ext i = None"
  "qd_search sample_ext req =
     Inr (if 1 \<le> sr_limit req
          then [\<lparr>sp_score = 1 / 2, sp_payload = Some (sample_chunk ''implementation'' ''D1'')\<rparr>]
          else [])"
  "qd_scroll sample_ext sreq =
     Inr \<lparr>sc_points = [Some (sample_chunk ''metadata'' ''D2'')], next_page_offset = OffNull\<rparr>"
  "page_budget sample_ext = Suc (Suc (Suc (Suc 0)))"
  "bm25_search sample_ext docs q l0 ets =
     map (\<lambda>d. \<lparr>documentId = interp (doc_id d), br_score = 1, br_document = d\<rparr>) docs"
  "bm25_convert sample_ext r coll = \<lparr>score = br_score r, data = doc_chunk (br_document r)\<rparr>"
  "semantic_first_rank sample_ext = 1"
  "keyword_first_rank sample_ext = 1"
  by (simp_all add: sample_ext_def)

lemma sample_chunk_sel [simp]:
  "chunk_type (sample_chunk k n) = Some k"
  "entity_name (sample_chunk k n) = Some n"
  "p_type (sample_chunk k n) = Some ''chunk''"
  "p_name (sample_chunk k n) = None"
  "p_id (sample_chunk k n) = None"
  "content (sample_chunk k n) = None"
  "metadata (sample_chunk k n) = None"
  "entity_type (sample_chunk k n) = None"
  by (simp_all add: sample_chunk_def empty_payload_def)

lemma to_bm25_document_sel [simp]:
  "doc_chunk (to_bm25_document c) = c"
  "doc_id (to_bm25_document c) =
     (case p_id c of Some i \<Rightarrow> Some i | None \<Rightarrow> orElse (entity_name c) (p_id c))"
  by (simp_all add: to_bm25_document_def Let_def)

lemmas validate_defs =
  validateSearchSimilarRequest_def isRecord_def get_prop_def as_string_def
  as_string_array_def as_search_mode_def falsy_def

lemmas semantic_defs =
  searchSimilar_def connect_def no_collection_def truthy_def catch_empty_def
  performSemanticSearch_def processSearchResults_def processSearchResult_def
  sort_by_score_def boosted_score_def normalized_name_def orElse_def

lemmas keyword_defs =
  searchSimilar_def connect_def no_collection_def truthy_def catch_empty_def
  performKeywordSearch_def initializeBM25Index_def clearDocuments_def updateDocuments_def
  next_offset_def List.map_filter_def

section \<open>The search tool: the limit and the mode\<close>

lemma length_processSearchResults: "length (processSearchResults rs) \<le> length rs"
proof -
  have "length (concat (map processSearchResult rs)) \<le> length rs"
    by (induction rs) (auto simp: processSearchResult_def split: option.splits)
  then show ?thesis by (simp add: processSearchResults_def sort_by_score_def)
qed

lemma validated_not_falsy: "validateSearchSimilarRequest a = Inr r \<Longrightarrow> \<not> falsy a"
  by (cases a) (auto simp: validateSearchSimilarRequest_def isRecord_def falsy_def)

lemma catch_empty_cases: "catch_empty r = Inr rs \<Longrightarrow> rs = [] \<or> r = Inr rs"
  by (cases r) (simp_all add: catch_empty_def)

lemma searchSimilar_semantic:
  "searchSimilar x q ets (Some l) None st =
     (case connect x st of
        (Inl e, st1) \<Rightarrow> Some (Inl e, st1)
      | (Inr u, st1) \<Rightarrow>
          if no_collection x then Some (Inl collection_error, st1)
          else Some (catch_empty (performSemanticSearch x q ets l), st1))"
  by (simp add: searchSimilar_def split: prod.splits sum.splits)

lemma semantic_results_bounded:
  assumes "\<forall>req res. qd_search x req = Inr res \<longrightarrow> of_nat (length res) \<le> max 0 (sr_limit req)"
      and "searchSimilar x q ets (Some l) None st = Some (Inr rs, st1)"
  shows "of_nat (length rs) \<le> max 0 l"
proof -
  obtain r0 st0 where c: "connect x st = (r0, st0)" by (cases "connect x st")
  from assms(2) have "catch_empty (performSemanticSearch x q ets l) = Inr rs"
    unfolding searchSimilar_semantic c by (cases r0; simp split: if_splits)
  then consider "rs = []" | "performSemanticSearch x q ets l = Inr rs"
    using catch_empty_cases by blast
  then show ?thesis
  proof cases
    case 1
    then show ?thesis by simp
  next
    case 2
    then obtain v res where
      r: "qd_search x \<lparr>sr_vector = v, sr_limit = l, sr_with_payload = True,
                        sr_filter = buildEntityTypeFilter ets\<rparr> = Inr res"
      and rs: "rs = processSearchResults res"
      by (auto simp: performSemanticSearch_def split: sum.splits)
    from assms(1) r have "of_nat (length res) \<le> max 0 l" by fastforce
    moreover have "length rs \<le> length res" using rs length_processSearchResults by simp
    ultimately show ?thesis by (meson of_nat_mono order_trans)
  qed
qed

text \<open>
  C10. For a request that passes validation, the tool hands \<open>searchSimilar\<close> of the
  persistence layer the limit \<open>max 1 (min l 100)\<close>, where \<open>l\<close> is the requested limit, or 50
  when none was given, and no search mode. When the store returns at most as many points
  as the limit it is asked for (none for a negative limit), the tool returns at most 100
  results. Validation itself
  accepts every positive limit.
\<close>

theorem search_limit_clamped:
  assumes v: "validateSearchSimilarRequest arguments = Inr args"
  shows "search_similar_tool x arguments st =
          (case searchSimilar x (rq_query args) (rq_entityTypes args)
                  (Some (max 1 (min (case rq_limit args of None \<Rightarrow> 50 | Some l \<Rightarrow> l) 100)))
                  None st of
             None \<Rightarrow> None
           | Some (Inl e, st1) \<Rightarrow> Some (Inl (as_internal_error x e), st1)
           | Some (Inr results, st1) \<Rightarrow> Some (Inr results, st1))
        \<and> ((\<forall>req res. qd_search x req = Inr res \<longrightarrow> of_nat (length res) \<le> max 0 (sr_limit req))
             \<longrightarrow> (\<forall>results st1. search_similar_tool x arguments st = Some (Inr results, st1)
                    \<longrightarrow> length results \<le> 100))
        \<and> (\<forall>q l. 0 < l \<longrightarrow>
              validateSearchSimilarRequest
                (JObject [(''query'', JString q), (''limit'', JNumber l)])
              = Inr \<lparr>rq_query = q, rq_entityTypes = None, rq_limit = Some l,
                      rq_searchMode = None\<rparr>)"
proof (intro conjI)
  let ?l = "max 1 (min (case rq_limit args of None \<Rightarrow> 50 | Some l \<Rightarrow> l) 100) :: rat"
  show eq: "search_similar_tool x arguments st =
          (case searchSimilar x (rq_query args) (rq_entityTypes args) (Some ?l) None st of
             None \<Rightarrow> None
           | Some (Inl e, st1) \<Rightarrow> Some (Inl (as_internal_error x e), st1)
           | Some (Inr results, st1) \<Rightarrow> Some (Inr results, st1))"
    using v validated_not_falsy[OF v]
    by (simp add: search_similar_tool_def KnowledgeGraphManager_searchSimilar_def)
  show "(\<forall>req res. qd_search x req = Inr res \<longrightarrow> of_nat (length res) \<le> max 0 (sr_limit req))
             \<longrightarrow> (\<forall>results st1. search_similar_tool x arguments st = Some (Inr results, st1)
                    \<longrightarrow> length results \<le> 100)"
  proof (intro impI allI)
    fix results st1
    assume h: "\<forall>req res. qd_search x req = Inr res \<longrightarrow> of_nat (length res) \<le> max 0 (sr_limit req)"
       and r: "search_similar_tool x arguments st = Some (Inr results, st1)"
    from r eq have "searchSimilar x (rq_query args) (rq_entityTypes args) (Some ?l) None st
                    = Some (Inr results, st1)"
      by (auto split: option.splits prod.splits sum.splits)
    from semantic_results_bounded[OF h this]
    have "(of_nat (length results) :: rat) \<le> max 0 ?l" .
    also have "\<dots> \<le> 100" by simp
    finally show "length results \<le> 100" by (metis of_nat_le_iff of_nat_numeral)
  qed
  show "\<forall>q l. 0 < l \<longrightarrow>
          validateSearchSimilarRequest (JObject [(''query'', JString q), (''limit'', JNumber l)])
          = Inr \<lparr>rq_query = q, rq_entityTypes = None, rq_limit = Some l, rq_searchMode = None\<rparr>"
    by (simp add: validate_defs)
qed

text \<open>A request for 500 results passes validation and reaches the store as a request
  for 100.\<close>

theorem search_limit_clamped_witness:
  "validateSearchSimilarRequest (JObject [(''query'', JString ''D''), (''limit'', JNumber 500)])
     = Inr \<lparr>rq_query = ''D'', rq_entityTypes = None, rq_limit = Some 500, rq_searchMode = None\<rparr>
   \<and> search_similar_tool sample_ext
        (JObject [(''query'', JString ''D''), (''limit'', JNumber 500)]) sample_state
     = (case searchSimilar sample_ext ''D'' None (Some 100) None sample_state of
          None \<Rightarrow> None
        | Some (Inl e, st1) \<Rightarrow> Some (Inl (as_internal_error sample_ext e), st1)
        | Some (Inr results, st1) \<Rightarrow> Some (Inr results, st1))
   \<and> search_similar_tool sample_ext
        (JObject [(''query'', JString ''D''), (''limit'', JNumber 500)]) sample_state
     = Some (Inr [\<lparr>score = 3 / 5, data = sample_chunk ''implementation'' ''D1''\<rparr>], sample_state)
   \<and> length [\<lparr>score = 3 / 5, data = sample_chunk ''implementation'' ''D1''\<rparr>] \<le> 100"
proof -
  let ?a = "JObject [(''query'', JString ''D''), (''limit'', JNumber 500)]"
  have v: "validateSearchSimilarRequest ?a
     = Inr \<lparr>rq_query = ''D'', rq_entityTypes = None, rq_limit = Some 500, rq_searchMode = None\<rparr>"
    by (simp add: validate_defs)
  have r: "search_similar_tool sample_ext ?a sample_state
     = Some (Inr [\<lparr>score = 3 / 5, data = sample_chunk ''implementation'' ''D1''\<rparr>], sample_state)"
    by (simp add: search_similar_tool_def validate_defs KnowledgeGraphManager_searchSimilar_def
                  semantic_defs sample_state_def)
  have h: "\<forall>req res. qd_search sample_ext req = Inr res \<longrightarrow> of_nat (length res) \<le> max 0 (sr_limit req)"
    by auto
  note t = search_limit_clamped[OF v, of sample_ext sample_state]
  from t have "search_similar_tool sample_ext ?a sample_state
     = (case searchSimilar sample_ext ''D'' None (Some 100) None sample_state of
          None \<Rightarrow> None
        | Some (Inl e, st1) \<Rightarrow> Some (Inl (as_internal_error sample_ext e), st1)
        | Some (Inr results, st1) \<Rightarrow> Some (Inr results, st1))"
    by simp
  moreover from t h r
  have "length [\<lparr>score = 3 / 5, data = sample_chunk ''implementation'' ''D1''\<rparr>] \<le> 100"
    by blast
  ultimately show ?thesis using v r by blast
qed

text \<open>
  C3. The tool validates \<open>searchMode\<close> and then drops it: a request for a keyword search is
  answered by the vector-similarity search. In the sample environment the request
  \<open>{query: "D", searchMode: "keyword"}\<close> passes validation with the mode \<open>keyword\<close>, the tool
  returns the semantic result \<open>D1\<close>, and the keyword search of the persistence layer, which
  the tool never reaches, returns \<open>D2\<close>.
\<close>

theorem search_mode_not_forwarded:
  "validateSearchSimilarRequest
     (JObject [(''query'', JString ''D''), (''searchMode'', JString ''keyword'')])
     = Inr \<lparr>rq_query = ''D'', rq_entityTypes = None, rq_limit = None,
             rq_searchMode = Some Keyword\<rparr>
   \<and> search_similar_tool sample_ext
        (JObject [(''query'', JString ''D''), (''searchMode'', JString ''keyword'')])
        sample_state
     = Some (Inr [\<lparr>score = 3 / 5, data = sample_chunk ''implementation'' ''D1''\<rparr>], sample_state)
   \<and> searchSimilar sample_ext ''D'' None (Some 50) (Some Semantic) sample_state
     = Some (Inr [\<lparr>score = 3 / 5, data = sample_chunk ''implementation'' ''D1''\<rparr>], sample_state)
   \<and> searchSimilar sample_ext ''D'' None (Some 50) (Some Keyword) sample_state
     = Some (Inr [\<lparr>score = 1, data = sample_chunk ''metadata'' ''D2''\<rparr>],
             sample_state\<lparr>bm25_documents := [to_bm25_document (sample_chunk ''metadata'' ''D2'')]\<rparr>)"
proof (intro conjI)
  show "validateSearchSimilarRequest
     (JObject [(''query'', JString ''D''), (''searchMode'', JString ''keyword'')])
     = Inr \<lparr>rq_query = ''D'', rq_entityTypes = None, rq_limit = None,
             rq_searchMode = Some Keyword\<rparr>"
    by (simp add: validate_defs)
  show "search_similar_tool sample_ext
        (JObject [(''query'', JString ''D''), (''searchMode'', JString ''keyword'')])
        sample_state
     = Some (Inr [\<lparr>score = 3 / 5, data = sample_chunk ''implementation'' ''D1''\<rparr>], sample_state)"
    by (simp add: search_similar_tool_def validate_defs KnowledgeGraphManager_searchSimilar_def
                  semantic_defs sample_state_def)
  show "searchSimilar sample_ext ''D'' None (Some 50) (Some Semantic) sample_state
     = Some (Inr [\<lparr>score = 3 / 5, data = sample_chunk ''implementation'' ''D1''\<rparr>], sample_state)"
    by (simp add: semantic_defs sample_state_def)
  show "searchSimilar sample_ext ''D'' None (Some 50) (Some Keyword) sample_state
     = Some (Inr [\<lparr>score = 1, data = sample_chunk ''metadata'' ''D2''\<rparr>],
             sample_state\<lparr>bm25_documents := [to_bm25_document (sample_chunk ''metadata'' ''D2'')]\<rparr>)"
    by (simp add: keyword_defs sample_state_def)
qed

section \<open>Hybrid search: fusion and the keyword index\<close>






text \<open>The rank of a document absent from a list, and of a document of the list: the first
  rank plus the number of documents before its first occurrence.\<close>

lemma rank_of_None: "rank_of first d ds = None \<longleftrightarrow> d \<notin> set ds"
  by (induction ds arbitrary: first) auto

lemma rank_of_Some:
  "rank_of first d ds = Some k \<longleftrightarrow>
     (\<exists>i < length ds. k = first + i \<and> ds ! i = d \<and> d \<notin> set (take i ds))"
proof (induction ds arbitrary: first)
  case Nil
  show ?case by simp
next
  case (Cons y ds)
  show ?case
  proof (cases "d = y")
    case True
    have "(\<exists>i < length (y # ds). k = first + i \<and> (y # ds) ! i = d \<and> d \<notin> set (take i (y # ds)))
          \<longleftrightarrow> k = first"
    proof
      assume "\<exists>i < length (y # ds). k = first + i \<and> (y # ds) ! i = d \<and> d \<notin> set (take i (y # ds))"
      then obtain i where i: "k = first + i" "d \<notin> set (take i (y # ds))" by blast
      from i(2) True have "i = 0" by (cases i) auto
      with i(1) show "k = first" by simp
    next
      assume "k = first"
      with True show "\<exists>i < length (y # ds). k = first + i \<and> (y # ds) ! i = d
                        \<and> d \<notin> set (take i (y # ds))"
        by (intro exI[of _ 0]) simp
    qed
    with True show ?thesis by auto
  next
    case False
    have "(\<exists>i < length (y # ds). k = first + i \<and> (y # ds) ! i = d \<and> d \<notin> set (take i (y # ds)))
          \<longleftrightarrow> (\<exists>j < length ds. k = Suc first + j \<and> ds ! j = d \<and> d \<notin> set (take j ds))"
    proof
      assume "\<exists>i < length (y # ds). k = first + i \<and> (y # ds) ! i = d \<and> d \<notin> set (take i (y # ds))"
      then obtain i where i: "i < length (y # ds)" "k = first + i" "(y # ds) ! i = d"
        "d \<notin> set (take i (y # ds))" by blast
      from i(3) False obtain j where j: "i = Suc j" by (cases i) auto
      with i show "\<exists>j < length ds. k = Suc first + j \<and> ds ! j = d \<and> d \<notin> set (take j ds)"
        by (intro exI[of _ j]) auto
    next
      assume "\<exists>j < length ds. k = Suc first + j \<and> ds ! j = d \<and> d \<notin> set (take j ds)"
      then obtain j where j: "j < length ds" "k = Suc first + j" "ds ! j = d"
        "d \<notin> set (take j ds)" by blast
      with False show "\<exists>i < length (y # ds). k = first + i \<and> (y # ds) ! i = d
                         \<and> d \<notin> set (take i (y # ds))"
        by (intro exI[of _ "Suc j"]) auto
    qed
    with False Cons.IH[of "Suc first"] show ?thesis by simp
  qed
qed





lemma ranked_convert [simp]:
  "bm25_convert ranked_ext r coll = \<lparr>score = br_score r, data = doc_chunk (br_document r)\<rparr>"
  by (simp add: ranked_ext_def)








lemma connect_bm25:
  "connect x (st\<lparr>bm25_documents := d\<rparr>) =
     (fst (connect x st), (snd (connect x st))\<lparr>bm25_documents := d\<rparr>)"
  by (simp add: connect_def split: sum.splits)

lemma initializeBM25Index_rebuilds:
  "initializeBM25Index x (st\<lparr>bm25_documents := d\<rparr>) = initializeBM25Index x st"
  by (simp add: initializeBM25Index_def clearDocuments_def)

lemma keyword_search_rebuilds_index:
  "map_option fst (performKeywordSearch x q ets l (st\<lparr>bm25_documents := d\<rparr>))
   = map_option fst (performKeywordSearch x q ets l st)"
proof -
  obtain r st1 where c: "connect x st = (r, st1)" by (cases "connect x st")
  show ?thesis
    unfolding performKeywordSearch_def connect_bm25 c
    by (cases r) (simp_all add: initializeBM25Index_rebuilds split: option.splits)
qed

text \<open>
  C9. A keyword search rebuilds the index first, so its results do not depend on what the
  index held before (\<open>keyword_search_rebuilds_index\<close>). A hybrid search does not: its
  keyword half reads the index as it stands. In the sample environment, on an instance
  whose index is still empty, the hybrid search returns \<open>D1\<close> only; with the index rebuilt
  from the same store it returns \<open>D1\<close> and \<open>D2\<close>.
\<close>

theorem hybrid_search_uses_stale_index:
  "initializeBM25Index sample_ext sample_state
     = Some (sample_state\<lparr>bm25_documents := [to_bm25_document (sample_chunk ''metadata'' ''D2'')]\<rparr>)
   \<and> performHybridSearch sample_ext ''D'' None 50 sample_state
     = Inr [\<lparr>score = 7 / 10 / 61, data = sample_chunk ''implementation'' ''D1''\<rparr>]
   \<and> performHybridSearch sample_ext ''D'' None 50
        (sample_state\<lparr>bm25_documents := [to_bm25_document (sample_chunk ''metadata'' ''D2'')]\<rparr>)
     = Inr [\<lparr>score = 7 / 10 / 61, data = sample_chunk ''implementation'' ''D1''\<rparr>,
            \<lparr>score = 3 / 10 / 61, data = sample_chunk ''metadata'' ''D2''\<rparr>]"
  by (simp add: keyword_defs sample_state_def performHybridSearch_def semantic_defs
        fuseResults_def fused_ranking_def fused_score_def rrf_term_def result_key_def
        slice0_def trunc_def interp_def)

section \<open>Writes: one chunk per entity and per relation\<close>

lemma connect_points: "connect x st = (r, st1) \<Longrightarrow> points st1 = points st \<and> ticks st1 = ticks st"
  by (auto simp: connect_def split: if_splits sum.splits)

lemma persistEntity_success:
  assumes "persistEntity x e st = (Inr (), st')"
  shows "\<exists>vec now. points st' = (points st)(entity_id x (name e) \<mapsto>
             \<lparr>pt_vector = vec, pt_payload = Some (entity_payload e now)\<rparr>)"
proof -
  obtain r st1 where c: "connect x st = (r, st1)" by (cases "connect x st")
  from assms c show ?thesis
    using connect_points[OF c]
    by (auto simp: persistEntity_def upsert_def Let_def split: sum.splits if_splits option.splits)
       blast
qed

lemma persistRelation_success:
  assumes "persistRelation x r st = (Inr (), st')"
  shows "\<exists>vec now. points st' = (points st)(relation_id x r \<mapsto>
             \<lparr>pt_vector = vec, pt_payload = Some (relation_payload r now)\<rparr>)"
proof -
  obtain r0 st1 where c: "connect x st = (r0, st1)" by (cases "connect x st")
  from assms c show ?thesis
    using connect_points[OF c]
    by (auto simp: persistRelation_def upsert_def Let_def split: sum.splits if_splits option.splits)
       blast
qed

text \<open>
  C1. Persisting an entity and then an entity of the same name, both with success, leaves
  at the id \<open>hashString('manual::<name>::metadata')\<close> the chunk of the second entity, with
  its observations, and every other point as it was: the second write adds no point, and
  on an empty collection exactly one point is stored. The same holds for two writes of a
  relation with the same \<open>from\<close>, \<open>relationType\<close> and \<open>to\<close>, at the id
  \<open>hashString('relation::<from>-<relationType>-<to>::relation')\<close>.
\<close>

theorem idempotent_upsert:
  "(name e2 = name e1 \<and> persistEntity x e1 st = (Inr (), st1)
      \<and> persistEntity x e2 st1 = (Inr (), st2)
    \<longrightarrow> (\<exists>vec now. points st2 =
            (points st)(IdNum (unat (hashString x (''manual::'' @ name e1 @ ''::metadata''))) \<mapsto>
               \<lparr>pt_vector = vec, pt_payload = Some (entity_payload e2 now)\<rparr>)
            \<and> p_observations (entity_payload e2 now) = Some (observations e2))
        \<and> dom (points st2) = dom (points st1)
        \<and> (points st = Map.empty \<longrightarrow>
              dom (points st2)
              = {IdNum (unat (hashString x (''manual::'' @ name e1 @ ''::metadata'')))}))
   \<and> (rfrom r2 = rfrom r1 \<and> relationType r2 = relationType r1 \<and> rto r2 = rto r1
      \<and> persistRelation x r1 st = (Inr (), st1')
      \<and> persistRelation x r2 st1' = (Inr (), st2')
    \<longrightarrow> (\<exists>vec now. points st2' =
            (points st)(IdNum (unat (hashString x
                 (''relation::'' @ rfrom r1 @ ''-'' @ relationType r1 @ ''-'' @ rto r1
                  @ ''::relation''))) \<mapsto>
               \<lparr>pt_vector = vec, pt_payload = Some (relation_payload r2 now)\<rparr>))
        \<and> dom (points st2') = dom (points st1')
        \<and> (points st = Map.empty \<longrightarrow>
              dom (points st2')
              = {IdNum (unat (hashString x
                   (''relation::'' @ rfrom r1 @ ''-'' @ relationType r1 @ ''-'' @ rto r1
                    @ ''::relation'')))}))"
proof (intro conjI impI)
  assume a: "name e2 = name e1 \<and> persistEntity x e1 st = (Inr (), st1)
      \<and> persistEntity x e2 st1 = (Inr (), st2)"
  let ?i = "IdNum (unat (hashString x (''manual::'' @ name e1 @ ''::metadata'')))"
  have i: "entity_id x (name e2) = ?i" "entity_id x (name e1) = ?i"
    using a by (simp_all add: entity_id_def)
  from a persistEntity_success[of x e1 st st1] obtain v1 n1 where
    p1: "points st1 = (points st)(?i \<mapsto> \<lparr>pt_vector = v1, pt_payload = Some (entity_payload e1 n1)\<rparr>)"
    unfolding i by blast
  from a persistEntity_success[of x e2 st1 st2] obtain v2 n2 where
    p2: "points st2 = (points st1)(?i \<mapsto> \<lparr>pt_vector = v2, pt_payload = Some (entity_payload e2 n2)\<rparr>)"
    unfolding i by blast
  have p3: "points st2 = (points st)(?i \<mapsto> \<lparr>pt_vector = v2, pt_payload = Some (entity_payload e2 n2)\<rparr>)"
    unfolding p2 p1 by simp
  have "p_observations (entity_payload e2 n2) = Some (observations e2)"
    by (simp add: entity_payload_def empty_payload_def)
  with p3 show "\<exists>vec now. points st2 =
            (points st)(?i \<mapsto> \<lparr>pt_vector = vec, pt_payload = Some (entity_payload e2 now)\<rparr>)
            \<and> p_observations (entity_payload e2 now) = Some (observations e2)"
    by blast
  show "dom (points st2) = dom (points st1)" unfolding p2 p1 by auto
  show "dom (points st2) = {?i}" if "points st = Map.empty"
    unfolding p3 that by simp
next
  assume a: "rfrom r2 = rfrom r1 \<and> relationType r2 = relationType r1 \<and> rto r2 = rto r1
      \<and> persistRelation x r1 st = (Inr (), st1')
      \<and> persistRelation x r2 st1' = (Inr (), st2')"
  let ?i = "IdNum (unat (hashString x
                 (''relation::'' @ rfrom r1 @ ''-'' @ relationType r1 @ ''-'' @ rto r1
                  @ ''::relation'')))"
  have i: "relation_id x r2 = ?i" "relation_id x r1 = ?i"
    using a by (simp_all add: relation_id_def relation_key_def)
  from a persistRelation_success[of x r1 st st1'] obtain v1 n1 where
    p1: "points st1' = (points st)(?i \<mapsto> \<lparr>pt_vector = v1, pt_payload = Some (relation_payload r1 n1)\<rparr>)"
    unfolding i by blast
  from a persistRelation_success[of x r2 st1' st2'] obtain v2 n2 where
    p2: "points st2' = (points st1')(?i \<mapsto> \<lparr>pt_vector = v2, pt_payload = Some (relation_payload r2 n2)\<rparr>)"
    unfolding i by blast
  have p3: "points st2' = (points st)(?i \<mapsto> \<lparr>pt_vector = v2, pt_payload = Some (relation_payload r2 n2)\<rparr>)"
    unfolding p2 p1 by simp
  then show "\<exists>vec now. points st2' =
            (points st)(?i \<mapsto> \<lparr>pt_vector = vec, pt_payload = Some (relation_payload r2 now)\<rparr>)"
    by blast
  show "dom (points st2') = dom (points st1')" unfolding p2 p1 by auto
  show "dom (points st2') = {?i}" if "points st = Map.empty"
    unfolding p3 that by simp
qed

lemma hashString_sample [simp]: "hashString sample_ext s = 0"
  by (simp add: hashString_def)

lemma persist_foo_X:
  "persistEntity sample_ext (foo ''does X'') sample_state =
     (Inr (), sample_state\<lparr>ticks := 1, points := [IdNum 0 \<mapsto>
        \<lparr>pt_vector = [1], pt_payload = Some (entity_payload (foo ''does X'') [])\<rparr>]\<rparr>)"
  by (simp add: persistEntity_def connect_def sample_state_def no_collection_def truthy_def
        upsert_def entity_id_def foo_def)

lemma persist_foo_Y:
  "persistEntity sample_ext (foo ''does Y'') (sample_state\<lparr>ticks := 1, points := [IdNum 0 \<mapsto>
        \<lparr>pt_vector = [1], pt_payload = Some (entity_payload (foo ''does X'') [])\<rparr>]\<rparr>) =
     (Inr (), sample_state\<lparr>ticks := 2, points := [IdNum 0 \<mapsto>
        \<lparr>pt_vector = [1], pt_payload = Some (entity_payload (foo ''does Y'') ''t'')\<rparr>]\<rparr>)"
  by (simp add: persistEntity_def connect_def sample_state_def no_collection_def truthy_def
        upsert_def entity_id_def foo_def)


lemma persist_rel_1:
  "persistRelation sample_ext a_calls_b sample_state =
     (Inr (), sample_state\<lparr>ticks := 1, points := [IdNum 0 \<mapsto>
        \<lparr>pt_vector = [1], pt_payload = Some (relation_payload a_calls_b [])\<rparr>]\<rparr>)"
  by (simp add: persistRelation_def connect_def sample_state_def no_collection_def truthy_def
        upsert_def relation_id_def)

lemma persist_rel_2:
  "persistRelation sample_ext a_calls_b (sample_state\<lparr>ticks := 1, points := [IdNum 0 \<mapsto>
        \<lparr>pt_vector = [1], pt_payload = Some (relation_payload a_calls_b [])\<rparr>]\<rparr>) =
     (Inr (), sample_state\<lparr>ticks := 2, points := [IdNum 0 \<mapsto>
        \<lparr>pt_vector = [1], pt_payload = Some (relation_payload a_calls_b ''t'')\<rparr>]\<rparr>)"
  by (simp add: persistRelation_def connect_def sample_state_def no_collection_def truthy_def
        upsert_def relation_id_def)

text \<open>\<open>foo\<close> with \<open>does X\<close>, then \<open>foo\<close> with \<open>does Y\<close>: one chunk, with \<open>does Y\<close>; and
  \<open>A calls B\<close> twice: one chunk.\<close>

theorem idempotent_upsert_witness:
  "persistEntity sample_ext (foo ''does X'') sample_state =
     (Inr (), sample_state\<lparr>ticks := 1, points := [IdNum 0 \<mapsto>
        \<lparr>pt_vector = [1], pt_payload = Some (entity_payload (foo ''does X'') [])\<rparr>]\<rparr>)
   \<and> persistEntity sample_ext (foo ''does Y'')
        (sample_state\<lparr>ticks := 1, points := [IdNum 0 \<mapsto>
          \<lparr>pt_vector = [1], pt_payload = Some (entity_payload (foo ''does X'') [])\<rparr>]\<rparr>) =
     (Inr (), sample_state\<lparr>ticks := 2, points := [IdNum 0 \<mapsto>
        \<lparr>pt_vector = [1], pt_payload = Some (entity_payload (foo ''does Y'') ''t'')\<rparr>]\<rparr>)
   \<and> dom (points (sample_state\<lparr>ticks := 2, points := [IdNum 0 \<mapsto>
        \<lparr>pt_vector = [1], pt_payload = Some (entity_payload (foo ''does Y'') ''t'')\<rparr>]\<rparr>))
     = {IdNum (unat (hashString sample_ext (''manual::'' @ ''foo'' @ ''::metadata'')))}
   \<and> p_observations (entity_payload (foo ''does Y'') ''t'') = Some [''does Y'']
   \<and> persistRelation sample_ext a_calls_b sample_state =
     (Inr (), sample_state\<lparr>ticks := 1, points := [IdNum 0 \<mapsto>
        \<lparr>pt_vector = [1], pt_payload = Some (relation_payload a_calls_b [])\<rparr>]\<rparr>)
   \<and> persistRelation sample_ext a_calls_b
        (sample_state\<lparr>ticks := 1, points := [IdNum 0 \<mapsto>
          \<lparr>pt_vector = [1], pt_payload = Some (relation_payload a_calls_b [])\<rparr>]\<rparr>) =
     (Inr (), sample_state\<lparr>ticks := 2, points := [IdNum 0 \<mapsto>
        \<lparr>pt_vector = [1], pt_payload = Some (relation_payload a_calls_b ''t'')\<rparr>]\<rparr>)
   \<and> dom (points (sample_state\<lparr>ticks := 2, points := [IdNum 0 \<mapsto>
        \<lparr>pt_vector = [1], pt_payload = Some (relation_payload a_calls_b ''t'')\<rparr>]\<rparr>))
     = {IdNum (unat (hashString sample_ext
          (''relation::'' @ ''A'' @ ''-'' @ ''calls'' @ ''-'' @ ''B'' @ ''::relation'')))}"
proof -
  have e: "points sample_state = Map.empty" by (simp add: sample_state_def)
  have n: "name (foo ''does Y'') = name (foo ''does X'')" "name (foo ''does X'') = ''foo''"
    by (simp_all add: foo_def)
  have r: "rfrom a_calls_b = ''A''" "relationType a_calls_b = ''calls''" "rto a_calls_b = ''B''"
    by (simp_all add: a_calls_b_def)
  note t = idempotent_upsert[of "foo ''does Y''" "foo ''does X''" sample_ext sample_state _ _
             a_calls_b a_calls_b]
  from t n(1) persist_foo_X persist_foo_Y e
  have 1: "dom (points (sample_state\<lparr>ticks := 2, points := [IdNum 0 \<mapsto>
        \<lparr>pt_vector = [1], pt_payload = Some (entity_payload (foo ''does Y'') ''t'')\<rparr>]\<rparr>))
     = {IdNum (unat (hashString sample_ext (''manual::'' @ ''foo'' @ ''::metadata'')))}"
    unfolding n(2) by blast
  from t persist_rel_1 persist_rel_2 e
  have 2: "dom (points (sample_state\<lparr>ticks := 2, points := [IdNum 0 \<mapsto>
        \<lparr>pt_vector = [1], pt_payload = Some (relation_payload a_calls_b ''t'')\<rparr>]\<rparr>))
     = {IdNum (unat (hashString sample_ext
          (''relation::'' @ ''A'' @ ''-'' @ ''calls'' @ ''-'' @ ''B'' @ ''::relation'')))}"
    unfolding r by blast
  have 3: "p_observations (entity_payload (foo ''does Y'') ''t'') = Some [''does Y'']"
    by (simp add: entity_payload_def empty_payload_def foo_def)
  show ?thesis using persist_foo_X persist_foo_Y persist_rel_1 persist_rel_2 1 2 3 by blast
qed

section \<open>The full scan\<close>

lemma getRawData_loop_pages:
  "scan_pages x offset pages \<Longrightarrow> length pages \<le> fuel \<Longrightarrow>
   getRawData_loop x fuel m ts offset acc
   = Some (Inr (foldl (process_point m ts) acc (concat (map sc_points pages))))"
proof (induction x offset pages arbitrary: fuel acc rule: scan_pages.induct)
  case (1 x offset)
  then show ?case by simp
next
  case (2 x offset p)
  then obtain f where "fuel = Suc f" by (cases fuel) auto
  with 2 show ?case by (auto simp: next_offset_def)
next
  case (3 x offset p q ps)
  then obtain f where f: "fuel = Suc f" by (cases fuel) auto
  from "3.prems"(1) obtain c where
    s: "qd_scroll x \<lparr>sc_limit = 100, sc_offset = offset, sc_filter = chunk_scroll_filter\<rparr> = Inr p"
    and c: "next_page_offset p = OffCursor c"
    and r: "scan_pages x (Some c) (q # ps)"
    by (auto split: page_offset.splits)
  have "length (q # ps) \<le> f" using "3.prems"(2) f by simp
  from "3.IH"[OF c r this] show ?case
    unfolding f by (simp add: s c next_offset_def)
qed

lemma process_point_count:
  assumes "rd_entityCount acc = length (rd_entities acc)" "rd_entityCount acc \<le> m"
  shows "rd_entityCount (process_point m ts acc pt) = length (rd_entities (process_point m ts acc pt))
         \<and> rd_entityCount (process_point m ts acc pt) \<le> m"
  using assms by (auto simp: process_point_def Let_def split: option.splits)

lemma foldl_process_point_count:
  "rd_entityCount acc = length (rd_entities acc) \<Longrightarrow> rd_entityCount acc \<le> m \<Longrightarrow>
   length (rd_entities (foldl (process_point m ts) acc pts)) \<le> m"
proof (induction pts arbitrary: acc)
  case Nil
  then show ?case by simp
next
  case (Cons pt pts)
  from process_point_count[OF Cons.prems, of ts pt] Cons.IH show ?case by simp
qed

lemma process_point_relations:
  "rd_relations (process_point m ts acc pt)
   = rd_relations acc @ (case point_relation pt of None \<Rightarrow> [] | Some r \<Rightarrow> [r])"
  by (auto simp: process_point_def point_relation_def Let_def split: option.splits)

lemma foldl_process_point_relations:
  "rd_relations (foldl (process_point m ts) acc pts)
   = rd_relations acc @ List.map_filter point_relation pts"
proof (induction pts arbitrary: acc)
  case Nil
  then show ?case by (simp add: List.map_filter_simps)
next
  case (Cons pt pts)
  show ?case
    by (simp add: Cons.IH process_point_relations List.map_filter_simps split: option.splits)
qed

text \<open>
  When the store serves the scan the pages \<open>pages\<close>, the last of them with its cursor
  exhausted (and the page budget of the model allows that many pages), \<open>_getRawData\<close> returns
  the result of processing the points of all these pages in order. It holds at most
  \<open>maxEntities\<close> entities, where \<open>maxEntities\<close> is the limit \<open>n\<close> when \<open>n > 0\<close>. The relations
  collected are those of every relation chunk of every page, whatever the limit; they are
  the relations returned when no entity type filter is given, and with a filter they are
  what \<open>filterRelationsByEntityTypes\<close> selects from, with the entities tracked in
  \<open>rd_allEntities\<close>.
\<close>

lemma full_scan_pages:
  assumes pages: "scan_pages x None pages" and fuel: "length pages \<le> page_budget x"
  shows "let acc = foldl (process_point (maxEntities_of limit) entityTypes) empty_raw_data
                     (concat (map sc_points pages))
         in getRawData x limit entityTypes
              = Some (Inr \<lparr>entities = rd_entities acc,
                           relations = filterRelationsByEntityTypes (rd_relations acc)
                                         (rd_allEntities acc) entityTypes\<rparr>)
            \<and> length (rd_entities acc) \<le> maxEntities_of limit
            \<and> (\<forall>n. 0 < n \<longrightarrow> maxEntities_of (Some n) = n)
            \<and> rd_relations acc = List.map_filter point_relation (concat (map sc_points pages))
            \<and> filterRelationsByEntityTypes (rd_relations acc) (rd_allEntities acc) None
              = List.map_filter point_relation (concat (map sc_points pages))"
proof -
  define acc where "acc = foldl (process_point (maxEntities_of limit) entityTypes) empty_raw_data
                     (concat (map sc_points pages))"
  have 1: "getRawData x limit entityTypes
              = Some (Inr \<lparr>entities = rd_entities acc,
                           relations = filterRelationsByEntityTypes (rd_relations acc)
                                         (rd_allEntities acc) entityTypes\<rparr>)"
    unfolding getRawData_def getRawData_loop_pages[OF pages fuel] acc_def by simp
  have 2: "length (rd_entities acc) \<le> maxEntities_of limit"
    unfolding acc_def by (rule foldl_process_point_count) (simp_all add: empty_raw_data_def)
  have 3: "rd_relations acc = List.map_filter point_relation (concat (map sc_points pages))"
    unfolding acc_def foldl_process_point_relations by (simp add: empty_raw_data_def)
  have 4: "filterRelationsByEntityTypes (rd_relations acc) (rd_allEntities acc) None
              = List.map_filter point_relation (concat (map sc_points pages))"
    using 3 by (simp add: filterRelationsByEntityTypes_def)
  have 5: "\<forall>n. 0 < n \<longrightarrow> maxEntities_of (Some n) = n"
    by (simp add: maxEntities_of_def)
  show ?thesis unfolding Let_def acc_def[symmetric] using 1 2 3 4 5 by blast
qed


lemma paged_ext_sel [simp]:
  "qd_scroll paged_ext req = (if sc_offset req = None then Inr page1 else Inr page2)"
  "page_budget paged_ext = Suc (Suc (Suc (Suc 0)))"
  "COLLECTION_NAME paged_ext = Some ''memory''"
  "qd_getCollections paged_ext = Inr [''memory'']"
  "qd_getCollection paged_ext = Inr (Some 1536)"
  "generateEmbedding paged_ext t = Inr [1]"
  "qd_upsert_error paged_ext i = None"
  "sha256 paged_ext s = 0"
  "clock paged_ext n = replicate n (CHR ''t'')"
  by (simp_all add: paged_ext_def)

lemma paged_scan: "scan_pages paged_ext None [page1, page2]"
  by (simp add: page1_def page2_def)

lemma relation_chunk_sel [simp]:
  "p_type (relation_chunk f ty t) = Some ''chunk''"
  "chunk_type (relation_chunk f ty t) = Some ''relation''"
  "chunk_relation (relation_chunk f ty t)
     = (if f \<noteq> [] \<and> t \<noteq> [] \<and> ty \<noteq> []
        then Some \<lparr>rfrom = f, rto = t, relationType = ty\<rparr> else None)"
  by (auto simp: relation_chunk_def empty_payload_def chunk_relation_def orElse_def truthy_def)

lemma sample_chunk_entity [simp]:
  "normalized_name (sample_chunk k n) = (if n = [] then ''unknown'' else n)"
  "payload_entity_type (sample_chunk k n) = None"
  "chunk_observations (sample_chunk k n) = []"
  by (auto simp: normalized_name_def payload_entity_type_def chunk_observations_def
        orElse_def truthy_def sample_chunk_def empty_payload_def)

lemma paged_getRawData_1:
  "getRawData paged_ext (Some 1) None
   = Some (Inr \<lparr>entities = [\<lparr>name = ''E1'', entityType = None, observations = []\<rparr>],
                relations = [\<lparr>rfrom = ''E1'', rto = ''E2'', relationType = ''calls''\<rparr>,
                             \<lparr>rfrom = ''E3'', rto = ''E1'', relationType = ''calls''\<rparr>]\<rparr>)"
  by (simp add: getRawData_def page1_def page2_def next_offset_def process_point_def
        maxEntities_of_def empty_raw_data_def passesFilter_def filterRelationsByEntityTypes_def
        Let_def)

lemma typed_ext_sel [simp]:
  "qd_scroll typed_ext req = (if sc_offset req = None then Inr typed_page1 else Inr typed_page2)"
  "page_budget typed_ext = Suc (Suc (Suc (Suc 0)))"
  by (simp_all add: typed_ext_def)

lemma function_chunk_sel [simp]:
  "p_type (function_chunk n) = Some ''chunk''"
  "chunk_type (function_chunk n) = Some ''metadata''"
  "normalized_name (function_chunk n) = (if n = [] then ''unknown'' else n)"
  "payload_entity_type (function_chunk n) = Some ''function''"
  "chunk_observations (function_chunk n) = []"
  by (auto simp: function_chunk_def normalized_name_def payload_entity_type_def
        chunk_observations_def orElse_def truthy_def sample_chunk_def empty_payload_def)

lemma typed_scan: "scan_pages typed_ext None [typed_page1, typed_page2]"
  by (simp add: typed_page1_def typed_page2_def)

text \<open>
  C6. The scan goes on after the cap on the entities is reached and collects every relation
  chunk; without a filter on the entity types all of them are returned, whatever the cap
  (\<open>full_scan_pages\<close>). With a filter they are not: the entities by whose types the relations
  are selected are tracked only while the cap is not reached, so a relation between later
  entities is dropped, and the relations returned depend on the cap. The store holds the
  functions \<open>E1\<close>, \<open>E2\<close>, \<open>E3\<close> and the relation \<open>E2 calls E3\<close>, served in two pages. With the
  filter \<open>function\<close> and the cap 1 the scan returns \<open>E1\<close> and no relation; with the cap 3, or
  with no cap, it returns the relation, and so it does with the cap 1 and no filter.
\<close>

theorem entity_cap_drops_filtered_relations:
  "scan_pages typed_ext None [typed_page1, typed_page2]
   \<and> List.map_filter point_relation (concat (map sc_points [typed_page1, typed_page2]))
     = [\<lparr>rfrom = ''E2'', rto = ''E3'', relationType = ''calls''\<rparr>]
   \<and> getRawData typed_ext (Some 1) (Some [''function''])
     = Some (Inr \<lparr>entities = [\<lparr>name = ''E1'', entityType = Some ''function'', observations = []\<rparr>],
                  relations = []\<rparr>)
   \<and> getRawData typed_ext (Some 3) (Some [''function''])
     = Some (Inr \<lparr>entities = [\<lparr>name = ''E1'', entityType = Some ''function'', observations = []\<rparr>,
                              \<lparr>name = ''E2'', entityType = Some ''function'', observations = []\<rparr>,
                              \<lparr>name = ''E3'', entityType = Some ''function'', observations = []\<rparr>],
                  relations = [\<lparr>rfrom = ''E2'', rto = ''E3'', relationType = ''calls''\<rparr>]\<rparr>)
   \<and> getRawData typed_ext None (Some [''function''])
     = Some (Inr \<lparr>entities = [\<lparr>name = ''E1'', entityType = Some ''function'', observations = []\<rparr>,
                              \<lparr>name = ''E2'', entityType = Some ''function'', observations = []\<rparr>,
                              \<lparr>name = ''E3'', entityType = Some ''function'', observations = []\<rparr>],
                  relations = [\<lparr>rfrom = ''E2'', rto = ''E3'', relationType = ''calls''\<rparr>]\<rparr>)
   \<and> getRawData typed_ext (Some 1) None
     = Some (Inr \<lparr>entities = [\<lparr>name = ''E1'', entityType = Some ''function'', observations = []\<rparr>],
                  relations = [\<lparr>rfrom = ''E2'', rto = ''E3'', relationType = ''calls''\<rparr>]\<rparr>)"
proof (intro conjI)
  show "scan_pages typed_ext None [typed_page1, typed_page2]"
    by (rule typed_scan)
  show "List.map_filter point_relation (concat (map sc_points [typed_page1, typed_page2]))
     = [\<lparr>rfrom = ''E2'', rto = ''E3'', relationType = ''calls''\<rparr>]"
    by (simp add: typed_page1_def typed_page2_def List.map_filter_simps point_relation_def)
  note defs = getRawData_def typed_page1_def typed_page2_def next_offset_def process_point_def
    maxEntities_of_def MAX_SAFE_INTEGER_def empty_raw_data_def passesFilter_def
    filterRelationsByEntityTypes_def actual_entity_types_def knownChunkTypes_def
    entityTypeMap_def Let_def
  show "getRawData typed_ext (Some 1) (Some [''function''])
     = Some (Inr \<lparr>entities = [\<lparr>name = ''E1'', entityType = Some ''function'', observations = []\<rparr>],
                  relations = []\<rparr>)"
    by (simp add: defs)
  show "getRawData typed_ext (Some 3) (Some [''function''])
     = Some (Inr \<lparr>entities = [\<lparr>name = ''E1'', entityType = Some ''function'', observations = []\<rparr>,
                              \<lparr>name = ''E2'', entityType = Some ''function'', observations = []\<rparr>,
                              \<lparr>name = ''E3'', entityType = Some ''function'', observations = []\<rparr>],
                  relations = [\<lparr>rfrom = ''E2'', rto = ''E3'', relationType = ''calls''\<rparr>]\<rparr>)"
    by (simp add: defs)
  show "getRawData typed_ext None (Some [''function''])
     = Some (Inr \<lparr>entities = [\<lparr>name = ''E1'', entityType = Some ''function'', observations = []\<rparr>,
                              \<lparr>name = ''E2'', entityType = Some ''function'', observations = []\<rparr>,
                              \<lparr>name = ''E3'', entityType = Some ''function'', observations = []\<rparr>],
                  relations = [\<lparr>rfrom = ''E2'', rto = ''E3'', relationType = ''calls''\<rparr>]\<rparr>)"
    by (simp add: defs)
  show "getRawData typed_ext (Some 1) None
     = Some (Inr \<lparr>entities = [\<lparr>name = ''E1'', entityType = Some ''function'', observations = []\<rparr>],
                  relations = [\<lparr>rfrom = ''E2'', rto = ''E3'', relationType = ''calls''\<rparr>]\<rparr>)"
    by (simp add: defs)
qed

section \<open>Creating relations\<close>

lemma addRelations_loop_append:
  "addRelations_loop x ents pre st = (Inr (), st1) \<Longrightarrow>
   addRelations_loop x ents (pre @ rest) st = addRelations_loop x ents rest st1"
proof (induction pre arbitrary: st)
  case Nil
  then show ?case by simp
next
  case (Cons r rs)
  obtain res st' where p: "persistRelation x r st = (res, st')" by (cases "persistRelation x r st")
  from Cons.prems p have ok: "list_ex (\<lambda>e. name e = rfrom r) ents"
    "list_ex (\<lambda>e. name e = rto r) ents" "res = Inr ()"
    "addRelations_loop x ents rs st' = (Inr (), st1)"
    by (auto split: if_splits sum.splits)
  from Cons.IH[OF ok(4)] show ?case using ok p by simp
qed

lemma addRelations_loop_other:
  "addRelations_loop x ents pre st = (Inr (), st1) \<Longrightarrow> i \<notin> relation_id x ` set pre \<Longrightarrow>
   points st1 i = points st i"
proof (induction pre arbitrary: st)
  case Nil
  then show ?case by simp
next
  case (Cons r rs)
  obtain res st' where p: "persistRelation x r st = (res, st')" by (cases "persistRelation x r st")
  from Cons.prems(1) p have ok: "res = Inr ()" "addRelations_loop x ents rs st' = (Inr (), st1)"
    by (auto split: if_splits sum.splits)
  from persistRelation_success[of x r st st'] p ok obtain vec now where
    u: "points st' = (points st)(relation_id x r \<mapsto>
          \<lparr>pt_vector = vec, pt_payload = Some (relation_payload r now)\<rparr>)" by auto
  from Cons.IH[OF ok(2)] Cons.prems(2) have "points st1 i = points st' i" by simp
  then show ?case using u Cons.prems(2) by simp
qed

lemma addRelations_loop_persisted:
  "addRelations_loop x ents pre st = (Inr (), st1) \<Longrightarrow> p \<in> set pre \<Longrightarrow>
   \<exists>p' vec now. p' \<in> set pre \<and> relation_id x p' = relation_id x p
      \<and> points st1 (relation_id x p)
          = Some \<lparr>pt_vector = vec, pt_payload = Some (relation_payload p' now)\<rparr>"
proof (induction pre arbitrary: st p)
  case Nil
  then show ?case by simp
next
  case (Cons r rs)
  obtain res st' where pr: "persistRelation x r st = (res, st')" by (cases "persistRelation x r st")
  from Cons.prems(1) pr have ok: "res = Inr ()" "addRelations_loop x ents rs st' = (Inr (), st1)"
    by (auto split: if_splits sum.splits)
  show ?case
  proof (cases "relation_id x p \<in> relation_id x ` set rs")
    case True
    then obtain q where q: "q \<in> set rs" "relation_id x q = relation_id x p" by auto
    from Cons.IH[OF ok(2) q(1)] q(2) show ?thesis by (metis list.set_intros(2))
  next
    case False
    with Cons.prems(2) have pr_eq: "relation_id x p = relation_id x r" by auto
    from persistRelation_success[of x r st st'] pr ok obtain vec now where
      u: "points st' = (points st)(relation_id x r \<mapsto>
            \<lparr>pt_vector = vec, pt_payload = Some (relation_payload r now)\<rparr>)" by auto
    from addRelations_loop_other[OF ok(2) False]
    have "points st1 (relation_id x p)
          = Some \<lparr>pt_vector = vec, pt_payload = Some (relation_payload r now)\<rparr>"
      using u pr_eq by simp
    then show ?thesis using pr_eq by fastforce
  qed
qed

text \<open>
  C5. \<open>addRelations\<close> reads the graph once and then takes the relations of the request in
  order. When the relations \<open>pre\<close> were checked and persisted with success and the \<open>from\<close> or
  the \<open>to\<close> of the next relation \<open>r\<close> is not the name of an entity of that graph, the request
  ends with the error \<open>Entity not found: <name>\<close> in the state reached after \<open>pre\<close>: nothing
  is written for \<open>r\<close> or for the relations after it, every relation of \<open>pre\<close> has its chunk in
  the collection, and every other point is as it was.
\<close>

theorem missing_endpoint_stops_request:
  assumes graph: "getRawGraph x (Some MAX_SAFE_INTEGER) None st = Some (Inr currentGraph, st0)"
      and earlier: "addRelations_loop x (entities currentGraph) pre st0 = (Inr (), st1)"
      and missing: "rfrom r \<notin> set (map name (entities currentGraph))
                    \<or> rto r \<notin> set (map name (entities currentGraph))"
  shows "addRelations x (pre @ r # post) st
           = Some (Inl (JsError (''Entity not found: ''
                     @ (if rfrom r \<notin> set (map name (entities currentGraph))
                        then rfrom r else rto r))), st1)
         \<and> addRelations x pre st = Some (Inr (), st1)
         \<and> (\<forall>p \<in> set pre. \<exists>p' vec now. p' \<in> set pre \<and> relation_id x p' = relation_id x p
               \<and> points st1 (relation_id x p)
                   = Some \<lparr>pt_vector = vec, pt_payload = Some (relation_payload p' now)\<rparr>)
         \<and> (\<forall>i. i \<notin> relation_id x ` set pre \<longrightarrow> points st1 i = points st0 i)"
proof -
  have ex: "list_ex (\<lambda>e. name e = n) es \<longleftrightarrow> n \<in> set (map name es)" for n :: string and es :: "entity list"
    by (auto simp: list_ex_iff)
  have "addRelations_loop x (entities currentGraph) (r # post) st1
        = (Inl (JsError (''Entity not found: ''
                     @ (if rfrom r \<notin> set (map name (entities currentGraph))
                        then rfrom r else rto r))), st1)"
    using missing unfolding addRelations_loop.simps ex by auto
  with addRelations_loop_append[OF earlier, of "r # post"]
  have 1: "addRelations x (pre @ r # post) st
           = Some (Inl (JsError (''Entity not found: ''
                     @ (if rfrom r \<notin> set (map name (entities currentGraph))
                        then rfrom r else rto r))), st1)"
    by (simp add: addRelations_def graph)
  have 2: "addRelations x pre st = Some (Inr (), st1)"
    by (simp add: addRelations_def graph earlier)
  show ?thesis
    using 1 2 addRelations_loop_persisted[OF earlier] addRelations_loop_other[OF earlier]
    by blast
qed


lemma paged_getRawGraph:
  "getRawGraph paged_ext (Some MAX_SAFE_INTEGER) None sample_state
   = Some (Inr \<lparr>entities = [\<lparr>name = ''E1'', entityType = None, observations = []\<rparr>,
                            \<lparr>name = ''E2'', entityType = None, observations = []\<rparr>,
                            \<lparr>name = ''E3'', entityType = None, observations = []\<rparr>],
                relations = [\<lparr>rfrom = ''E1'', rto = ''E2'', relationType = ''calls''\<rparr>,
                             \<lparr>rfrom = ''E3'', rto = ''E1'', relationType = ''calls''\<rparr>]\<rparr>,
           sample_state)"
  by (simp add: getRawGraph_def scrollAll_def initialize_def connect_def sample_state_def
        no_collection_def truthy_def MAX_SAFE_INTEGER_def
        getRawData_def page1_def page2_def next_offset_def process_point_def
        maxEntities_of_def empty_raw_data_def passesFilter_def filterRelationsByEntityTypes_def
        Let_def)

lemma paged_first_relation:
  "addRelations_loop paged_ext
     [\<lparr>name = ''E1'', entityType = None, observations = []\<rparr>,
      \<lparr>name = ''E2'', entityType = None, observations = []\<rparr>,
      \<lparr>name = ''E3'', entityType = None, observations = []\<rparr>]
     [\<lparr>rfrom = ''E1'', rto = ''E2'', relationType = ''calls''\<rparr>] sample_state
   = (Inr (), sample_state\<lparr>ticks := 1, points := [IdNum 0 \<mapsto>
        \<lparr>pt_vector = [1], pt_payload = Some (relation_payload
           \<lparr>rfrom = ''E1'', rto = ''E2'', relationType = ''calls''\<rparr> [])\<rparr>]\<rparr>)"
  by (simp add: persistRelation_def connect_def sample_state_def no_collection_def truthy_def
        upsert_def relation_id_def hashString_def)

text \<open>With the entities \<open>E1\<close>, \<open>E2\<close>, \<open>E3\<close> in the store, the request \<open>E1 calls E2\<close>,
  \<open>E1 calls Nope\<close>, \<open>E2 calls E3\<close> fails on \<open>Nope\<close> and leaves the chunk of \<open>E1 calls E2\<close>.\<close>

theorem missing_endpoint_stops_request_witness:
  "getRawGraph paged_ext (Some MAX_SAFE_INTEGER) None sample_state
   = Some (Inr \<lparr>entities = [\<lparr>name = ''E1'', entityType = None, observations = []\<rparr>,
                            \<lparr>name = ''E2'', entityType = None, observations = []\<rparr>,
                            \<lparr>name = ''E3'', entityType = None, observations = []\<rparr>],
                relations = [\<lparr>rfrom = ''E1'', rto = ''E2'', relationType = ''calls''\<rparr>,
                             \<lparr>rfrom = ''E3'', rto = ''E1'', relationType = ''calls''\<rparr>]\<rparr>,
           sample_state)
   \<and> addRelations paged_ext
        [\<lparr>rfrom = ''E1'', rto = ''E2'', relationType = ''calls''\<rparr>,
         \<lparr>rfrom = ''E1'', rto = ''Nope'', relationType = ''calls''\<rparr>,
         \<lparr>rfrom = ''E2'', rto = ''E3'', relationType = ''calls''\<rparr>] sample_state
     = Some (Inl (JsError ''Entity not found: Nope''),
             sample_state\<lparr>ticks := 1, points := [IdNum 0 \<mapsto>
               \<lparr>pt_vector = [1], pt_payload = Some (relation_payload
                  \<lparr>rfrom = ''E1'', rto = ''E2'', relationType = ''calls''\<rparr> [])\<rparr>]\<rparr>)
   \<and> addRelations paged_ext
        [\<lparr>rfrom = ''E1'', rto = ''E2'', relationType = ''calls''\<rparr>] sample_state
     = Some (Inr (),
             sample_state\<lparr>ticks := 1, points := [IdNum 0 \<mapsto>
               \<lparr>pt_vector = [1], pt_payload = Some (relation_payload
                  \<lparr>rfrom = ''E1'', rto = ''E2'', relationType = ''calls''\<rparr> [])\<rparr>]\<rparr>)"
proof -
  let ?g = "\<lparr>entities = [\<lparr>name = ''E1'', entityType = None, observations = []\<rparr>,
                            \<lparr>name = ''E2'', entityType = None, observations = []\<rparr>,
                            \<lparr>name = ''E3'', entityType = None, observations = []\<rparr>],
                relations = [\<lparr>rfrom = ''E1'', rto = ''E2'', relationType = ''calls''\<rparr>,
                             \<lparr>rfrom = ''E3'', rto = ''E1'', relationType = ''calls''\<rparr>]\<rparr>"
  let ?r = "\<lparr>rfrom = ''E1'', rto = ''Nope'', relationType = ''calls''\<rparr>"
  have e: "addRelations_loop paged_ext (entities ?g)
             [\<lparr>rfrom = ''E1'', rto = ''E2'', relationType = ''calls''\<rparr>] sample_state
           = (Inr (), sample_state\<lparr>ticks := 1, points := [IdNum 0 \<mapsto>
        \<lparr>pt_vector = [1], pt_payload = Some (relation_payload
           \<lparr>rfrom = ''E1'', rto = ''E2'', relationType = ''calls''\<rparr> [])\<rparr>]\<rparr>)"
    using paged_first_relation by simp
  have m: "rfrom ?r \<notin> set (map name (entities ?g)) \<or> rto ?r \<notin> set (map name (entities ?g))"
    by simp
  note t = missing_endpoint_stops_request[OF paged_getRawGraph e m,
             of "[\<lparr>rfrom = ''E2'', rto = ''E3'', relationType = ''calls''\<rparr>]"]
  from t[THEN conjunct1] t[THEN conjunct2, THEN conjunct1] paged_getRawGraph
  show ?thesis by simp
qed

section \<open>Failures of the store during a read\<close>

lemma connect_initialized: "initialized st \<Longrightarrow> connect x st = (Inr (), st)"
  by (simp add: connect_def)

lemma catch_empty_Inr: "\<exists>rs. catch_empty r = Inr rs"
  by (cases r) (simp_all add: catch_empty_def)

lemma catch_empty_Inl [simp]: "catch_empty (Inl e) = Inr []"
  by (simp add: catch_empty_def)

lemma searchSimilar_never_fails:
  assumes "initialized st" "\<not> no_collection x"
      and "searchSimilar x q ets l m st = Some (r, st')"
  shows "\<exists>rs. r = Inr rs"
proof -
  let ?l = "case l of None \<Rightarrow> 20 | Some v \<Rightarrow> v"
  let ?m = "case m of None \<Rightarrow> Semantic | Some v \<Rightarrow> v"
  show ?thesis
  proof (cases ?m)
    case Semantic
    with assms have "r = catch_empty (performSemanticSearch x q ets ?l)"
      by (auto simp: searchSimilar_def connect_initialized)
    then show ?thesis using catch_empty_Inr by metis
  next
    case Keyword
    with assms obtain r0 st2 where "performKeywordSearch x q ets ?l st = Some (r0, st2)"
      "r = catch_empty r0"
      by (auto simp: searchSimilar_def connect_initialized split: option.splits)
    then show ?thesis using catch_empty_Inr by metis
  next
    case Hybrid
    with assms have "r = catch_empty (performHybridSearch x q ets ?l st)"
      by (auto simp: searchSimilar_def connect_initialized)
    then show ?thesis using catch_empty_Inr by metis
  qed
qed

lemma semantic_fails:
  assumes "\<forall>req. isl (qd_search x req)"
  shows "isl (performSemanticSearch x q ets l)"
proof (cases "generateEmbedding x q")
  case (Inl e)
  then show ?thesis by (simp add: performSemanticSearch_def)
next
  case (Inr v)
  from assms obtain e where
    "qd_search x \<lparr>sr_vector = v, sr_limit = l, sr_with_payload = True,
                   sr_filter = buildEntityTypeFilter ets\<rparr> = Inl e"
    by (metis isl_def)
  then show ?thesis by (simp add: performSemanticSearch_def Inr)
qed

lemma search_down_semantic:
  assumes "initialized st" "\<not> no_collection x" "\<forall>req. isl (qd_search x req)"
  shows "searchSimilar x q ets l (Some Semantic) st = Some (Inr [], st)"
    and "searchSimilar x q ets l (Some Hybrid) st = Some (Inr [], st)"
proof -
  let ?l = "case l of None \<Rightarrow> 20 | Some v \<Rightarrow> v"
  from semantic_fails[OF assms(3)] obtain e where
    e: "performSemanticSearch x q ets ?l = Inl e" by (metis isl_def)
  show "searchSimilar x q ets l (Some Semantic) st = Some (Inr [], st)"
    using assms(1,2) by (simp add: searchSimilar_def connect_initialized e)
  show "searchSimilar x q ets l (Some Hybrid) st = Some (Inr [], st)"
    using assms(1,2) by (simp add: searchSimilar_def connect_initialized performHybridSearch_def e)
qed

lemma search_down_keyword:
  assumes "initialized st" "\<not> no_collection x" "\<forall>req. isl (qd_scroll x req)"
      and "0 < page_budget x"
      and "bm25_search x [] q (case l of None \<Rightarrow> 20 | Some v \<Rightarrow> v) ets = []"
  shows "searchSimilar x q ets l (Some Keyword) st = Some (Inr [], st\<lparr>bm25_documents := []\<rparr>)"
proof -
  obtain f where f: "page_budget x = Suc f" using assms(4) by (cases "page_budget x") auto
  from assms(3) obtain e where
    "qd_scroll x \<lparr>sc_limit = 100, sc_offset = None, sc_filter = metadata_scroll_filter\<rparr> = Inl e"
    by (metis isl_def)
  then have s: "scroll_metadata_chunks x (page_budget x) None [] = Some (Inl e)"
    unfolding f by simp
  have i: "initializeBM25Index x st = Some (st\<lparr>bm25_documents := []\<rparr>)"
    using assms(1,2) by (simp add: initializeBM25Index_def clearDocuments_def connect_def s)
  show ?thesis
    using assms(1,2,5)
    by (simp add: searchSimilar_def connect_initialized performKeywordSearch_def i catch_empty_def)
qed

lemma getGraph_never_fails: "getGraph x opts st \<noteq> Some (Inl e, st')"
  by (auto simp: getGraph_def split: option.splits sum.splits prod.splits)

lemma getRawGraph_never_fails: "getRawGraph x l ets st \<noteq> Some (Inl e, st')"
  by (auto simp: getRawGraph_def split: option.splits sum.splits prod.splits)

lemma getRawData_down:
  assumes "\<forall>req. isl (qd_scroll x req)" "0 < page_budget x"
  shows "\<exists>e. getRawData x l ets = Some (Inl e)"
proof -
  obtain f where f: "page_budget x = Suc f" using assms(2) by (cases "page_budget x") auto
  from assms(1) obtain e where
    "qd_scroll x \<lparr>sc_limit = 100, sc_offset = None, sc_filter = chunk_scroll_filter\<rparr> = Inl e"
    by (metis isl_def)
  then show ?thesis by (simp add: getRawData_def f)
qed

lemma scrollAll_down:
  assumes "\<forall>req. isl (qd_scroll x req)" "0 < page_budget x"
  shows "\<exists>e st1. scrollAll x opts st = Some (Inl e, st1)"
proof -
  obtain r st1 where i: "initialize x st = (r, st1)" by (cases "initialize x st")
  show ?thesis
  proof (cases r)
    case (Inl e)
    then show ?thesis by (simp add: scrollAll_def i)
  next
    case (Inr u)
    show ?thesis
    proof (cases "no_collection x")
      case True
      then show ?thesis by (simp add: scrollAll_def i Inr)
    next
      case False
      let ?ets = "case opts of None \<Rightarrow> None | Some o' \<Rightarrow> so_entityTypes o'"
      let ?lim = "case opts of None \<Rightarrow> 10000 | Some o' \<Rightarrow>
                    (case so_limit o' of None \<Rightarrow> 10000 | Some n \<Rightarrow> if n = 0 then 10000 else n)"
      from getRawData_down[OF assms] obtain e where
        "getRawData x (Some ?lim) ?ets = Some (Inl e)" by blast
      then show ?thesis using False by (simp add: scrollAll_def i Inr Let_def)
    qed
  qed
qed

text \<open>
  C4. On a connected instance with a configured collection name (the server only serves
  requests after \<open>initialize\<close> succeeded), \<open>searchSimilar\<close> never ends with an error, in any
  mode. When the store refuses every search, the semantic and the hybrid search return the
  empty list; when it refuses every scan, the keyword search returns what the keyword
  index returns empty, that is the empty list. \<open>getGraph\<close> and \<open>getRawGraph\<close> never end with
  an error: an error of \<open>scrollAll\<close> becomes the empty graph, and this is what they return
  when the store refuses every scan.
\<close>

theorem read_failures_give_empty_results:
  "(initialized st \<and> \<not> no_collection x \<longrightarrow>
      (\<forall>r st'. searchSimilar x q ets l m st = Some (r, st') \<longrightarrow> (\<exists>rs. r = Inr rs))
      \<and> ((\<forall>req. isl (qd_search x req)) \<longrightarrow>
            searchSimilar x q ets l (Some Semantic) st = Some (Inr [], st)
            \<and> searchSimilar x q ets l (Some Hybrid) st = Some (Inr [], st))
      \<and> ((\<forall>req. isl (qd_scroll x req)) \<and> 0 < page_budget x
           \<and> bm25_search x [] q (case l of None \<Rightarrow> 20 | Some v \<Rightarrow> v) ets = [] \<longrightarrow>
            searchSimilar x q ets l (Some Keyword) st
              = Some (Inr [], st\<lparr>bm25_documents := []\<rparr>)))
   \<and> (\<forall>e st'. getGraph x opts st \<noteq> Some (Inl e, st'))
   \<and> (\<forall>e st'. getRawGraph x limit ets st \<noteq> Some (Inl e, st'))
   \<and> (\<forall>e st1. scrollAll x opts st = Some (Inl e, st1) \<longrightarrow>
         getGraph x opts st = Some (Inr empty_graph, st1))
   \<and> (\<forall>e st1. scrollAll x (Some \<lparr>so_mode = Some Raw, so_entityTypes = ets, so_limit = limit\<rparr>) st
                  = Some (Inl e, st1) \<longrightarrow>
         getRawGraph x limit ets st = Some (Inr empty_graph, st1))
   \<and> ((\<forall>req. isl (qd_scroll x req)) \<and> 0 < page_budget x \<longrightarrow>
         (\<exists>st1. getGraph x opts st = Some (Inr empty_graph, st1))
         \<and> (\<exists>st1. getRawGraph x limit ets st = Some (Inr empty_graph, st1)))"
proof (intro conjI impI allI)
  fix r st'
  assume "initialized st \<and> \<not> no_collection x" "searchSimilar x q ets l m st = Some (r, st')"
  then show "\<exists>rs. r = Inr rs" using searchSimilar_never_fails by blast
next
  assume "initialized st \<and> \<not> no_collection x" "\<forall>req. isl (qd_search x req)"
  then show "searchSimilar x q ets l (Some Semantic) st = Some (Inr [], st)"
    using search_down_semantic(1) by blast
next
  assume "initialized st \<and> \<not> no_collection x" "\<forall>req. isl (qd_search x req)"
  then show "searchSimilar x q ets l (Some Hybrid) st = Some (Inr [], st)"
    using search_down_semantic(2) by blast
next
  assume "initialized st \<and> \<not> no_collection x"
    "(\<forall>req. isl (qd_scroll x req)) \<and> 0 < page_budget x
           \<and> bm25_search x [] q (case l of None \<Rightarrow> 20 | Some v \<Rightarrow> v) ets = []"
  then show "searchSimilar x q ets l (Some Keyword) st = Some (Inr [], st\<lparr>bm25_documents := []\<rparr>)"
    using search_down_keyword by blast
next
  fix e st'
  show "getGraph x opts st \<noteq> Some (Inl e, st')" by (rule getGraph_never_fails)
  show "getRawGraph x limit ets st \<noteq> Some (Inl e, st')" by (rule getRawGraph_never_fails)
next
  fix e st1
  assume "scrollAll x opts st = Some (Inl e, st1)"
  then show "getGraph x opts st = Some (Inr empty_graph, st1)" by (simp add: getGraph_def)
next
  fix e st1
  assume "scrollAll x (Some \<lparr>so_mode = Some Raw, so_entityTypes = ets, so_limit = limit\<rparr>) st
                  = Some (Inl e, st1)"
  then show "getRawGraph x limit ets st = Some (Inr empty_graph, st1)"
    by (simp add: getRawGraph_def)
next
  assume a: "(\<forall>req. isl (qd_scroll x req)) \<and> 0 < page_budget x"
  then obtain e st1 where "scrollAll x opts st = Some (Inl e, st1)"
    using scrollAll_down by blast
  then show "\<exists>st1. getGraph x opts st = Some (Inr empty_graph, st1)"
    by (simp add: getGraph_def)
  from a obtain e st1 where
    "scrollAll x (Some \<lparr>so_mode = Some Raw, so_entityTypes = ets, so_limit = limit\<rparr>) st
       = Some (Inl e, st1)"
    using scrollAll_down by blast
  then show "\<exists>st1. getRawGraph x limit ets st = Some (Inr empty_graph, st1)"
    by (simp add: getRawGraph_def)
qed


lemma down_ext_sel [simp]:
  "qd_search down_ext req = Inl (JsError ''connection refused'')"
  "qd_scroll down_ext sreq = Inl (JsError ''connection refused'')"
  "page_budget down_ext = Suc (Suc (Suc (Suc 0)))"
  "COLLECTION_NAME down_ext = Some ''memory''"
  "qd_getCollections down_ext = Inr [''memory'']"
  "qd_getCollection down_ext = Inr (Some 1536)"
  "generateEmbedding down_ext t = Inr [1]"
  "bm25_search down_ext docs q l0 ets =
     map (\<lambda>d. \<lparr>documentId = interp (doc_id d), br_score = 1, br_document = d\<rparr>) docs"
  by (simp_all add: down_ext_def)

text \<open>A store that refuses every search and every scan: empty lists and empty graphs.\<close>

theorem read_failures_give_empty_results_witness:
  "initialized sample_state \<and> \<not> no_collection down_ext
   \<and> (\<forall>req. isl (qd_search down_ext req)) \<and> (\<forall>req. isl (qd_scroll down_ext req))
   \<and> 0 < page_budget down_ext
   \<and> searchSimilar down_ext ''q'' None None (Some Semantic) sample_state
     = Some (Inr [], sample_state)
   \<and> searchSimilar down_ext ''q'' None None (Some Hybrid) sample_state
     = Some (Inr [], sample_state)
   \<and> searchSimilar down_ext ''q'' None None (Some Keyword) sample_state
     = Some (Inr [], sample_state)
   \<and> getGraph down_ext None sample_state = Some (Inr empty_graph, sample_state)
   \<and> getRawGraph down_ext (Some 150) None sample_state = Some (Inr empty_graph, sample_state)"
proof -
  have i: "initialized sample_state \<and> \<not> no_collection down_ext"
    by (simp add: sample_state_def no_collection_def truthy_def)
  have s: "\<forall>req. isl (qd_search down_ext req)" "\<forall>req. isl (qd_scroll down_ext req)"
    "0 < page_budget down_ext"
    "bm25_search down_ext [] ''q'' (case None of None \<Rightarrow> 20 | Some v \<Rightarrow> v) None = []"
    by simp_all
  have b: "sample_state\<lparr>bm25_documents := []\<rparr> = sample_state"
    by (simp add: sample_state_def)
  note t = read_failures_give_empty_results[of sample_state down_ext "''q''" None None
             "Some Semantic" None "Some 150"]
  from t i s have "searchSimilar down_ext ''q'' None None (Some Semantic) sample_state
     = Some (Inr [], sample_state)"
    "searchSimilar down_ext ''q'' None None (Some Hybrid) sample_state
     = Some (Inr [], sample_state)"
    "searchSimilar down_ext ''q'' None None (Some Keyword) sample_state
     = Some (Inr [], sample_state\<lparr>bm25_documents := []\<rparr>)"
    by blast+
  moreover have "getGraph down_ext None sample_state = Some (Inr empty_graph, sample_state)"
    "getRawGraph down_ext (Some 150) None sample_state = Some (Inr empty_graph, sample_state)"
    by (simp_all add: getGraph_def getRawGraph_def scrollAll_def initialize_def connect_def
          sample_state_def no_collection_def truthy_def getRawData_def)
  ultimately show ?thesis using i s(1,2,3) unfolding b by blast
qed

section \<open>The scope of an implementation\<close>

lemma best_by_key_props:
  assumes "\<forall>k b. m k = Some b \<longrightarrow> result_key b = k"
  shows "(\<forall>k b. best_by_key m rs k = Some b \<longrightarrow> result_key b = k)
         \<and> dom (best_by_key m rs) = dom m \<union> result_key ` set rs"
  using assms
proof (induction rs arbitrary: m)
  case Nil
  then show ?case by simp
next
  case (Cons r rs)
  define m' where "m' = (case m (result_key r) of
          None \<Rightarrow> m(result_key r \<mapsto> r)
        | Some existing \<Rightarrow>
            if score r > score existing then m(result_key r \<mapsto> r) else m)"
  have inv: "\<forall>k b. m' k = Some b \<longrightarrow> result_key b = k"
    using Cons.prems by (auto simp: m'_def split: option.splits if_splits)
  have d: "dom m' = insert (result_key r) (dom m)"
    by (auto simp: m'_def split: option.splits if_splits)
  from Cons.IH[OF inv] show ?case
    unfolding best_by_key.simps m'_def[symmetric] d by auto
qed

lemma first_occurrences_keys:
  assumes "\<forall>k b. m k = Some b \<longrightarrow> result_key b = k" and "result_key ` set rs \<subseteq> dom m"
  shows "result_key ` set (first_occurrences m seen rs) = result_key ` set rs - set seen"
  using assms(2)
proof (induction rs arbitrary: seen)
  case Nil
  then show ?case by simp
next
  case (Cons r rs)
  then obtain b where b: "m (result_key r) = Some b" by auto
  with assms(1) have kb: "result_key b = result_key r" by blast
  from Cons.prems have sub: "result_key ` set rs \<subseteq> dom m" by simp
  show ?case
  proof (cases "result_key r \<in> set seen")
    case True
    with Cons.IH[OF sub, of seen] show ?thesis by auto
  next
    case False
    with Cons.IH[OF sub, of "result_key r # seen"] b kb show ?thesis by auto
  qed
qed

lemma mergeAndDeduplicate_keys:
  "result_key ` set (mergeAndDeduplicate rs) = result_key ` set rs"
proof -
  have e: "\<forall>k b. (Map.empty :: string \<rightharpoonup> search_result) k = Some b \<longrightarrow> result_key b = k"
    by simp
  note p = best_by_key_props[OF e, of rs]
  from p have "result_key ` set rs \<subseteq> dom (best_by_key Map.empty rs)" by simp
  from first_occurrences_keys[OF p[THEN conjunct1] this, of "[]"]
  show ?thesis by (simp add: mergeAndDeduplicate_def)
qed

lemma result_key_name:
  "result_key r = n \<Longrightarrow> n \<noteq> ''unknown'' \<Longrightarrow> entity_name (data r) = Some n"
  by (auto simp: result_key_def orElse_def truthy_def split: option.splits if_splits)

lemma expandLogicalScope_keys:
  "result_key ` set base \<subseteq> result_key ` set (expandLogicalScope x base md limit st)"
  by (auto simp: expandLogicalScope_def mergeAndDeduplicate_keys split: option.splits sum.splits)

lemma expandDependencyScope_keys:
  "result_key ` set base \<subseteq> result_key ` set (expandDependencyScope x base md limit st)"
  by (auto simp: expandDependencyScope_def mergeAndDeduplicate_keys split: option.splits sum.splits)

lemma keys_to_names:
  assumes "result_key ` set base \<subseteq> result_key ` set bigger"
      and "r \<in> set base" "truthy (entity_name (data r))" "entity_name (data r) \<noteq> Some ''unknown''"
  shows "entity_name (data r) \<in> (\<lambda>r. entity_name (data r)) ` set bigger"
proof -
  from assms(3) obtain n where n: "entity_name (data r) = Some n" "n \<noteq> []"
    by (auto simp: truthy_def split: option.splits)
  then have k: "result_key r = n" by (simp add: result_key_def orElse_def truthy_def)
  with assms(1,2) obtain b where b: "b \<in> set bigger" "result_key b = n" by force
  from n assms(4) have "n \<noteq> ''unknown''" by simp
  from result_key_name[OF b(2) this] b(1) n show ?thesis by force
qed

lemma extract_ok:
  assumes "\<forall>r \<in> set (take 1 base). semantic_metadata (data r) \<noteq> None \<or> content (data r) \<noteq> None"
  shows "\<exists>md. extractSemanticMetadata base = Inr md"
  using assms by (cases base) (auto simp: extractSemanticMetadata_def Let_def split: option.splits)

text \<open>
  C7. When the scope \<open>minimal\<close> returns the results \<open>base\<close>, and the first of them has
  structured semantic metadata or a content (\<open>ChunkPayload\<close> declares \<open>content\<close> a string; the
  code parses it outside any \<open>try\<close>), the scopes \<open>logical\<close> and \<open>dependencies\<close> return results
  too, for the same entity name and limit, and every name of \<open>base\<close> is a name of their
  results. A result counts under the name \<open>entity_name || 'unknown'\<close>, as in
  \<open>mergeAndDeduplicate\<close>; for a result whose \<open>entity_name\<close> is set and is not \<open>unknown\<close> this is
  the \<open>entity_name\<close> itself. A failing expansion query returns \<open>base\<close> unchanged
  (\<open>expandLogicalScope_keys\<close> and \<open>expandDependencyScope_keys\<close> hold for every answer of the
  store).
\<close>

theorem scope_expansion_keeps_base:
  assumes minimal: "getImplementationChunks x entityName (Some Minimal) limit st = (Inr base, st1)"
      and wf: "\<forall>r \<in> set (take 1 base).
                 semantic_metadata (data r) \<noteq> None \<or> content (data r) \<noteq> None"
  shows "\<exists>logical dependencies.
           getImplementationChunks x entityName (Some Logical) limit st = (Inr logical, st1)
           \<and> getImplementationChunks x entityName (Some Dependencies) limit st
               = (Inr dependencies, st1)
           \<and> result_key ` set base \<subseteq> result_key ` set logical
           \<and> result_key ` set base \<subseteq> result_key ` set dependencies
           \<and> (\<forall>r \<in> set base.
                 truthy (entity_name (data r)) \<and> entity_name (data r) \<noteq> Some ''unknown'' \<longrightarrow>
                 entity_name (data r) \<in> (\<lambda>r. entity_name (data r)) ` set logical
                 \<and> entity_name (data r) \<in> (\<lambda>r. entity_name (data r)) ` set dependencies)"
proof -
  obtain r0 st0 where c: "connect x st = (r0, st0)" by (cases "connect x st")
  from minimal c have ok: "r0 = Inr ()" "\<not> no_collection x" "st0 = st1"
    "base = getEntityImplementation x entityName st1"
    by (auto simp: getImplementationChunks_def split: sum.splits if_splits)
  from extract_ok[OF wf] obtain md where md: "extractSemanticMetadata base = Inr md" by blast
  let ?l = "expandLogicalScope x base md limit st1"
  let ?d = "expandDependencyScope x base md limit st1"
  have l: "getImplementationChunks x entityName (Some Logical) limit st = (Inr ?l, st1)"
    using c ok md by (simp add: getImplementationChunks_def)
  have d: "getImplementationChunks x entityName (Some Dependencies) limit st = (Inr ?d, st1)"
    using c ok md by (simp add: getImplementationChunks_def)
  have kl: "result_key ` set base \<subseteq> result_key ` set ?l" by (rule expandLogicalScope_keys)
  have kd: "result_key ` set base \<subseteq> result_key ` set ?d" by (rule expandDependencyScope_keys)
  have "\<forall>r \<in> set base.
          truthy (entity_name (data r)) \<and> entity_name (data r) \<noteq> Some ''unknown'' \<longrightarrow>
          entity_name (data r) \<in> (\<lambda>r. entity_name (data r)) ` set ?l
          \<and> entity_name (data r) \<in> (\<lambda>r. entity_name (data r)) ` set ?d"
    using keys_to_names[OF kl] keys_to_names[OF kd] by blast
  with l d kl kd show ?thesis by blast
qed


lemma impl_chunk_sel [simp]:
  "chunk_type (impl_chunk n c) = Some ''implementation''"
  "entity_name (impl_chunk n c) = Some n"
  "content (impl_chunk n c) = Some c"
  "semantic_metadata (impl_chunk n c) = None"
  "metadata (impl_chunk n c) = Some \<lparr>m_entity_type = None, m_observations = None,
                          m_file_path = Some ''a.py'', m_line_number = None,
                          m_end_line_number = None, m_has_implementation = None\<rparr>"
  by (simp_all add: impl_chunk_def empty_payload_def)

lemma impl_ext_sel [simp]:
  "COLLECTION_NAME impl_ext = Some ''memory''"
  "qd_search impl_ext req =
     (case sr_filter req of
         None \<Rightarrow> Inr []
       | Some f \<Rightarrow>
           if must f = Some (implementation_filter ''entity_name'' ''run'')
           then Inr [impl_point (1 / 2) ''run'' ''import json helper(1)'']
           else if must f = Some (implementation_filter ''file_path'' ''a.py'')
           then Inr [impl_point (9 / 10) ''run'' ''import json helper(1)'',
                     impl_point (4 / 10) ''helper'' ''pass'',
                     impl_point (3 / 10) ''_private'' ''pass'',
                     impl_point (2 / 10) ''other'' ''pass'']
           else Inr [impl_point (4 / 10) ''helper'' ''pass'',
                     impl_point (1 / 10) ''json'' ''pass'',
                     impl_point (9 / 10) ''run'' ''import json helper(1)''])"
  by (simp_all add: impl_ext_def)

lemma impl_result_key [simp]: "result_key (impl_result s n c) = (if n = [] then ''unknown'' else n)"
  by (simp add: result_key_def impl_result_def orElse_def truthy_def)

lemma impl_result_score [simp]: "score (impl_result s n c) = s"
  by (simp add: impl_result_def)

lemma impl_point_results [simp]:
  "implementation_result (impl_point s n c) = [impl_result s n c]"
  "dependency_result (impl_point s n c) = [impl_result s n c]"
  "helper_result md (impl_point s n c)
     = (if n \<in> set (calls md) \<or> take 1 n = ''_'' then [impl_result s n c] else [])"
  by (simp_all add: implementation_result_def dependency_result_def helper_result_def
        impl_point_def impl_result_def name_or_empty_def)

lemma run_calls: "extractCalls ''import json helper(1)'' = [''helper'']"
  by (simp add: extractCalls_def is_word_char_def is_space_def)

lemma run_imports: "extractImports ''import json helper(1)'' = [''json'']"
  by (simp add: extractImports_def keyword_rest_def is_word_char_def is_space_def)

lemma run_metadata:
  "extractSemanticMetadata [impl_result (1 / 2) ''run'' ''import json helper(1)'']
   = Inr \<lparr>calls = [''helper''], imports_used = [''json''], md_file_path = Some ''a.py'',
          exceptions_handled = None, complexity = None, inferred_types = None\<rparr>"
  by (simp add: extractSemanticMetadata_def impl_result_def run_calls run_imports)

lemma impl_minimal:
  "getImplementationChunks impl_ext ''run'' (Some Minimal) None sample_state
   = (Inr [impl_result (1 / 2) ''run'' ''import json helper(1)''], sample_state)"
  by (simp add: getImplementationChunks_def connect_def sample_state_def no_collection_def
        truthy_def getEntityImplementation_def)

lemma impl_logical:
  "getImplementationChunks impl_ext ''run'' (Some Logical) None sample_state
   = (Inr [impl_result (1 / 2) ''run'' ''import json helper(1)'',
           impl_result (4 / 10) ''helper'' ''pass'',
           impl_result (3 / 10) ''_private'' ''pass''], sample_state)"
  by (simp add: getImplementationChunks_def connect_def sample_state_def no_collection_def
        truthy_def getEntityImplementation_def run_metadata expandLogicalScope_def
        implementation_filter_def mergeAndDeduplicate_def)

lemma impl_dependencies:
  "getImplementationChunks impl_ext ''run'' (Some Dependencies) None sample_state
   = (Inr [impl_result (9 / 10) ''run'' ''import json helper(1)'',
           impl_result (4 / 10) ''helper'' ''pass'',
           impl_result (1 / 10) ''json'' ''pass''], sample_state)"
  by (simp add: getImplementationChunks_def connect_def sample_state_def no_collection_def
        truthy_def getEntityImplementation_def run_metadata expandDependencyScope_def
        implementation_filter_def mergeAndDeduplicate_def)


text \<open>For \<open>run\<close>: the scope \<open>logical\<close> adds \<open>helper\<close> and \<open>_private\<close>, the scope \<open>dependencies\<close>
  adds \<open>helper\<close> and \<open>json\<close> and keeps \<open>run\<close> at its place, with the higher of its two scores.\<close>

theorem scope_expansion_keeps_base_witness:
  "getImplementationChunks impl_ext ''run'' (Some Minimal) None sample_state
     = (Inr [impl_result (1 / 2) ''run'' ''import json helper(1)''], sample_state)
   \<and> getImplementationChunks impl_ext ''run'' (Some Logical) None sample_state
     = (Inr [impl_result (1 / 2) ''run'' ''import json helper(1)'',
             impl_result (4 / 10) ''helper'' ''pass'',
             impl_result (3 / 10) ''_private'' ''pass''], sample_state)
   \<and> getImplementationChunks impl_ext ''run'' (Some Dependencies) None sample_state
     = (Inr [impl_result (9 / 10) ''run'' ''import json helper(1)'',
             impl_result (4 / 10) ''helper'' ''pass'',
             impl_result (1 / 10) ''json'' ''pass''], sample_state)
   \<and> result_key ` set [impl_result (1 / 2) ''run'' ''import json helper(1)'']
       \<subseteq> result_key ` set [impl_result (1 / 2) ''run'' ''import json helper(1)'',
             impl_result (4 / 10) ''helper'' ''pass'',
             impl_result (3 / 10) ''_private'' ''pass'']
   \<and> result_key ` set [impl_result (1 / 2) ''run'' ''import json helper(1)'']
       \<subseteq> result_key ` set [impl_result (9 / 10) ''run'' ''import json helper(1)'',
             impl_result (4 / 10) ''helper'' ''pass'',
             impl_result (1 / 10) ''json'' ''pass'']"
proof -
  have wf: "\<forall>r \<in> set (take 1 [impl_result (1 / 2) ''run'' ''import json helper(1)'']).
                 semantic_metadata (data r) \<noteq> None \<or> content (data r) \<noteq> None"
    by (simp add: impl_result_def)
  from scope_expansion_keeps_base[OF impl_minimal wf] obtain l d where
    l: "getImplementationChunks impl_ext ''run'' (Some Logical) None sample_state
          = (Inr l, sample_state)"
    and d: "getImplementationChunks impl_ext ''run'' (Some Dependencies) None sample_state
          = (Inr d, sample_state)"
    and k: "result_key ` set [impl_result (1 / 2) ''run'' ''import json helper(1)'']
              \<subseteq> result_key ` set l"
           "result_key ` set [impl_result (1 / 2) ''run'' ''import json helper(1)'']
              \<subseteq> result_key ` set d"
    by blast
  from l impl_logical have "l = [impl_result (1 / 2) ''run'' ''import json helper(1)'',
             impl_result (4 / 10) ''helper'' ''pass'',
             impl_result (3 / 10) ''_private'' ''pass'']" by simp
  moreover from d impl_dependencies have "d = [impl_result (9 / 10) ''run'' ''import json helper(1)'',
             impl_result (4 / 10) ''helper'' ''pass'',
             impl_result (1 / 10) ''json'' ''pass'']" by simp
  ultimately show ?thesis using k impl_minimal impl_logical impl_dependencies by blast
qed

section \<open>The flat views of a response\<close>

text \<open>A prefix of a list, shrunk, is the prefix of four fifths of the length.\<close>

lemma shrink_take: "m \<le> length F \<Longrightarrow> shrink (take m F) = take ((m * 4) div 5) F"
proof -
  assume "m \<le> length F"
  moreover have "(m * 4) div 5 \<le> m" by linarith
  ultimately show ?thesis by (simp add: shrink_def min_def)
qed

lemma take_empty_iff: "m \<le> length F \<Longrightarrow> take m F = [] \<longleftrightarrow> m = 0"
  by (cases F) auto

lemma fit_loop_entities:
  "m \<le> length F \<Longrightarrow>
   fit_loop fits (\<lambda>c. c\<lparr>entities := shrink (entities c)\<rparr>)
     \<lparr>entities = take m F, relations = []\<rparr> tr
   = Some (\<lparr>entities = take (backoff_length (\<lambda>k. fits \<lparr>entities = take k F, relations = []\<rparr>) m) F,
            relations = []\<rparr>,
           tr \<or> (m \<noteq> 0 \<and> \<not> fits \<lparr>entities = take m F, relations = []\<rparr>))"
proof (induction "\<lambda>k. fits \<lparr>entities = take k F, relations = []\<rparr>" m arbitrary: tr
       rule: backoff_length.induct)
  case (1 n)
  let ?f = "\<lambda>k. fits \<lparr>entities = take k F, relations = []\<rparr>"
  let ?n' = "(n * 4) div 5"
  have le: "?n' \<le> length F" using "1.prems" by simp
  show ?case
  proof (cases "n = 0 \<or> ?f n")
    case True
    then show ?thesis
      using "1.prems"
      by (subst fit_loop.simps, subst backoff_length.simps) (auto simp: take_empty_iff)
  next
    case False
    then have n: "n \<noteq> 0" "\<not> ?f n" by auto
    have b: "backoff_length ?f n = backoff_length ?f ?n'"
      using False by (subst backoff_length.simps) simp
    show ?thesis
    proof (cases "?n' = 0")
      case True
      have "backoff_length ?f ?n' = 0" unfolding True by (subst backoff_length.simps) simp
      then show ?thesis
        using n "1.prems" True
        by (subst fit_loop.simps) (auto simp: b shrink_take take_empty_iff)
    next
      case nz: False
      from "1.hyps"[OF False le, of True]
      show ?thesis
        using n "1.prems" nz le
        by (subst fit_loop.simps) (auto simp: b shrink_take take_empty_iff)
    qed
  qed
qed

lemma fit_loop_relations:
  "m \<le> length F \<Longrightarrow>
   fit_loop fits (\<lambda>c. c\<lparr>relations := shrink (relations c)\<rparr>)
     \<lparr>entities = [], relations = take m F\<rparr> tr
   = Some (\<lparr>entities = [],
            relations = take (backoff_length (\<lambda>k. fits \<lparr>entities = [], relations = take k F\<rparr>) m) F\<rparr>,
           tr \<or> (m \<noteq> 0 \<and> \<not> fits \<lparr>entities = [], relations = take m F\<rparr>))"
proof (induction "\<lambda>k. fits \<lparr>entities = [], relations = take k F\<rparr>" m arbitrary: tr
       rule: backoff_length.induct)
  case (1 n)
  let ?f = "\<lambda>k. fits \<lparr>entities = [], relations = take k F\<rparr>"
  let ?n' = "(n * 4) div 5"
  have le: "?n' \<le> length F" using "1.prems" by simp
  show ?case
  proof (cases "n = 0 \<or> ?f n")
    case True
    then show ?thesis
      using "1.prems"
      by (subst fit_loop.simps, subst backoff_length.simps) (auto simp: take_empty_iff)
  next
    case False
    then have n: "n \<noteq> 0" "\<not> ?f n" by auto
    have b: "backoff_length ?f n = backoff_length ?f ?n'"
      using False by (subst backoff_length.simps) simp
    show ?thesis
    proof (cases "?n' = 0")
      case True
      have "backoff_length ?f ?n' = 0" unfolding True by (subst backoff_length.simps) simp
      then show ?thesis
        using n "1.prems" True
        by (subst fit_loop.simps) (auto simp: b shrink_take take_empty_iff)
    next
      case nz: False
      from "1.hyps"[OF False le, of True]
      show ?thesis
        using n "1.prems" nz le
        by (subst fit_loop.simps) (auto simp: b shrink_take take_empty_iff)
    qed
  qed
qed

lemma backoff_length_fits_or_empty: "backoff_length fits n = 0 \<or> fits (backoff_length fits n)"
proof (induction fits n rule: backoff_length.induct)
  case (1 fits n)
  then show ?case by (subst (1 2) backoff_length.simps) auto
qed

lemma backoff_length_le: "backoff_length fits n \<le> n"
proof (induction fits n rule: backoff_length.induct)
  case (1 fits n)
  show ?case
  proof (cases "n = 0 \<or> fits n")
    case True
    then show ?thesis by (subst backoff_length.simps) simp
  next
    case False
    from 1[OF False] have "backoff_length fits ((n * 4) div 5) \<le> n" by simp
    then show ?thesis using False by (subst backoff_length.simps) simp
  qed
qed

text \<open>
  C8. The flat views and the token budget. The entities-only view and the relations-only
  view check the whole list (for the entities: after the filter on the types and the
  limit) and, if it does not fit, keep the first four fifths of it (rounded down), again
  and again until what is left fits or is empty: the view always returns, what it returns
  is the prefix of length \<open>backoff_length\<close>, which fits or is empty, and it is flagged as
  truncated exactly when the list was not empty and did not fit as a whole, with the two
  lengths in the reason. The raw view checks the whole graph too, but it shrinks nothing:
  a graph that fits is returned whole with its token count, and a graph that does not fit
  is answered by the empty graph, with token count 0, no section, the flag set and the
  reason \<open>Raw response too large - use smart, entities, or relationships mode with limits\<close>.
\<close>

theorem flat_views_backoff:
  "buildEntitiesStreamingResponse tc context options =
     (let F = filterAndLimitEntities (ctx_entities context) options;
          fits = (\<lambda>k. fitsInBudget tc (ctx_budget context) \<lparr>entities = take k F, relations = []\<rparr>);
          k = backoff_length fits (length F);
          result = \<lparr>entities = take k F, relations = []\<rparr>;
          t = (F \<noteq> [] \<and> \<not> fits (length F))
      in Some \<lparr>rs_content = result,
               rs_meta = \<lparr>tokenCount = estimateTokensWithFormatting tc result,
                          tokenLimit = tb_total (ctx_budget context),
                          truncated = t,
                          truncationReason =
                            (if t then Some (''Reduced from '' @ show_nat (length F) @ '' to ''
                                             @ show_nat k @ '' entities'')
                             else None),
                          sectionsIncluded = [''entities'']\<rparr>\<rparr>)
   \<and> buildRelationshipsStreamingResponse tc context =
     (let R = ctx_relations context;
          fits = (\<lambda>k. fitsInBudget tc (ctx_budget context) \<lparr>entities = [], relations = take k R\<rparr>);
          k = backoff_length fits (length R);
          result = \<lparr>entities = [], relations = take k R\<rparr>;
          t = (R \<noteq> [] \<and> \<not> fits (length R))
      in Some \<lparr>rs_content = result,
               rs_meta = \<lparr>tokenCount = estimateTokensWithFormatting tc result,
                          tokenLimit = tb_total (ctx_budget context),
                          truncated = t,
                          truncationReason =
                            (if t then Some (''Reduced from '' @ show_nat (length R) @ '' to ''
                                             @ show_nat k @ '' relations'')
                             else None),
                          sectionsIncluded = [''relations'']\<rparr>\<rparr>)
   \<and> (\<forall>fits n. backoff_length fits n
                 = (if n = 0 \<or> fits n then n else backoff_length fits ((n * 4) div 5)))
   \<and> (\<forall>fits n. backoff_length fits n = 0 \<or> fits (backoff_length fits n))
   \<and> buildRawStreamingResponse tc context =
       (let raw = \<lparr>entities = ctx_entities context, relations = ctx_relations context\<rparr>
        in if fitsInBudget tc (ctx_budget context) raw
           then \<lparr>rs_content = raw,
                 rs_meta = \<lparr>tokenCount = estimateTokensWithFormatting tc raw,
                            tokenLimit = tb_total (ctx_budget context),
                            truncated = False,
                            truncationReason = None,
                            sectionsIncluded = [''entities'', ''relations'']\<rparr>\<rparr>
           else \<lparr>rs_content = \<lparr>entities = [], relations = []\<rparr>,
                 rs_meta = \<lparr>tokenCount = 0,
                            tokenLimit = tb_total (ctx_budget context),
                            truncated = True,
                            truncationReason = Some
                              ''Raw response too large - use smart, entities, or relationships mode with limits'',
                            sectionsIncluded = []\<rparr>\<rparr>)"
proof (intro conjI allI)
  define F where "F = filterAndLimitEntities (ctx_entities context) options"
  define fits where
    "fits = (\<lambda>k. fitsInBudget tc (ctx_budget context) \<lparr>entities = take k F, relations = []\<rparr>)"
  have kF: "backoff_length fits (length F) \<le> length F" by (rule backoff_length_le)
  have fit: "fitContentToBudget tc \<lparr>entities = F, relations = []\<rparr> (ctx_budget context)
               (\<lambda>c. c\<lparr>entities := shrink (entities c)\<rparr>)
             = Some (\<lparr>entities = take (backoff_length fits (length F)) F, relations = []\<rparr>,
                     F \<noteq> [] \<and> \<not> fits (length F))"
  proof (cases "fits (length F)")
    case True
    then have "backoff_length fits (length F) = length F" by (subst backoff_length.simps) simp
    with True show ?thesis by (simp add: fitContentToBudget_def fits_def)
  next
    case False
    from fit_loop_entities[of "length F" F "fitsInBudget tc (ctx_budget context)" False]
    show ?thesis using False by (simp add: fitContentToBudget_def fits_def)
  qed
  show "buildEntitiesStreamingResponse tc context options =
     (let F = filterAndLimitEntities (ctx_entities context) options;
          fits = (\<lambda>k. fitsInBudget tc (ctx_budget context) \<lparr>entities = take k F, relations = []\<rparr>);
          k = backoff_length fits (length F);
          result = \<lparr>entities = take k F, relations = []\<rparr>;
          t = (F \<noteq> [] \<and> \<not> fits (length F))
      in Some \<lparr>rs_content = result,
               rs_meta = \<lparr>tokenCount = estimateTokensWithFormatting tc result,
                          tokenLimit = tb_total (ctx_budget context),
                          truncated = t,
                          truncationReason =
                            (if t then Some (''Reduced from '' @ show_nat (length F) @ '' to ''
                                             @ show_nat k @ '' entities'')
                             else None),
                          sectionsIncluded = [''entities'']\<rparr>\<rparr>)"
    unfolding buildEntitiesStreamingResponse_def Let_def F_def[symmetric] fits_def[symmetric] fit
    using kF by (simp add: min_def fits_def)
next
  define R where "R = ctx_relations context"
  define fits where
    "fits = (\<lambda>k. fitsInBudget tc (ctx_budget context) \<lparr>entities = [], relations = take k R\<rparr>)"
  have kR: "backoff_length fits (length R) \<le> length R" by (rule backoff_length_le)
  have fit: "fitContentToBudget tc \<lparr>entities = [], relations = R\<rparr> (ctx_budget context)
               (\<lambda>c. c\<lparr>relations := shrink (relations c)\<rparr>)
             = Some (\<lparr>entities = [], relations = take (backoff_length fits (length R)) R\<rparr>,
                     R \<noteq> [] \<and> \<not> fits (length R))"
  proof (cases "fits (length R)")
    case True
    then have "backoff_length fits (length R) = length R" by (subst backoff_length.simps) simp
    with True show ?thesis by (simp add: fitContentToBudget_def fits_def)
  next
    case False
    from fit_loop_relations[of "length R" R "fitsInBudget tc (ctx_budget context)" False]
    show ?thesis using False by (simp add: fitContentToBudget_def fits_def)
  qed
  show "buildRelationshipsStreamingResponse tc context =
     (let R = ctx_relations context;
          fits = (\<lambda>k. fitsInBudget tc (ctx_budget context) \<lparr>entities = [], relations = take k R\<rparr>);
          k = backoff_length fits (length R);
          result = \<lparr>entities = [], relations = take k R\<rparr>;
          t = (R \<noteq> [] \<and> \<not> fits (length R))
      in Some \<lparr>rs_content = result,
               rs_meta = \<lparr>tokenCount = estimateTokensWithFormatting tc result,
                          tokenLimit = tb_total (ctx_budget context),
                          truncated = t,
                          truncationReason =
                            (if t then Some (''Reduced from '' @ show_nat (length R) @ '' to ''
                                             @ show_nat k @ '' relations'')
                             else None),
                          sectionsIncluded = [''relations'']\<rparr>\<rparr>)"
    unfolding buildRelationshipsStreamingResponse_def Let_def R_def[symmetric] fits_def[symmetric] fit
    using kR by (simp add: min_def fits_def)
next
  fix fits n
  show "backoff_length fits n = (if n = 0 \<or> fits n then n else backoff_length fits ((n * 4) div 5))"
    by (rule backoff_length.simps)
  show "backoff_length fits n = 0 \<or> fits (backoff_length fits n)"
    by (rule backoff_length_fits_or_empty)
next
  show "buildRawStreamingResponse tc context =
       (let raw = \<lparr>entities = ctx_entities context, relations = ctx_relations context\<rparr>
        in if fitsInBudget tc (ctx_budget context) raw
           then \<lparr>rs_content = raw,
                 rs_meta = \<lparr>tokenCount = estimateTokensWithFormatting tc raw,
                            tokenLimit = tb_total (ctx_budget context),
                            truncated = False,
                            truncationReason = None,
                            sectionsIncluded = [''entities'', ''relations'']\<rparr>\<rparr>
           else \<lparr>rs_content = \<lparr>entities = [], relations = []\<rparr>,
                 rs_meta = \<lparr>tokenCount = 0,
                            tokenLimit = tb_total (ctx_budget context),
                            truncated = True,
                            truncationReason = Some
                              ''Raw response too large - use smart, entities, or relationships mode with limits'',
                            sectionsIncluded = []\<rparr>\<rparr>)"
    by (simp add: buildRawStreamingResponse_def Let_def)
qed

text \<open>A counter for which a graph costs one token per entity and per relation, five
  entities and a budget of four tokens.\<close>

lemma counting_tc_sel [simp]:
  "fitsInBudget counting_tc b g = (length (entities g) + length (relations g) \<le> tb_remaining b)"
  "estimateTokensWithFormatting counting_tc g = length (entities g) + length (relations g)"
  by (simp_all add: counting_tc_def)

lemma five_context_sel [simp]:
  "ctx_entities five_context = five_entities"
  "ctx_relations five_context = []"
  "ctx_budget five_context = \<lparr>tb_total = 4, tb_used = 0, tb_remaining = 4\<rparr>"
  "length five_entities = 5"
  by (simp_all add: five_context_def five_entities_def)

text \<open>The entities-only view of the five entities: the first four, flagged as truncated.
  The raw view of the same context: nothing, with no token counted and its own reason.\<close>

theorem flat_views_backoff_witness:
  "buildEntitiesStreamingResponse counting_tc five_context
     \<lparr>so_mode = Some Entities, so_entityTypes = None, so_limit = None\<rparr>
   = Some \<lparr>rs_content = \<lparr>entities = take 4 five_entities, relations = []\<rparr>,
           rs_meta = \<lparr>tokenCount = 4, tokenLimit = 4, truncated = True,
                      truncationReason = Some ''Reduced from 5 to 4 entities'',
                      sectionsIncluded = [''entities'']\<rparr>\<rparr>
   \<and> buildRawStreamingResponse counting_tc five_context
   = \<lparr>rs_content = \<lparr>entities = [], relations = []\<rparr>,
      rs_meta = \<lparr>tokenCount = 0, tokenLimit = 4, truncated = True,
                 truncationReason = Some
                   ''Raw response too large - use smart, entities, or relationships mode with limits'',
                 sectionsIncluded = []\<rparr>\<rparr>"
proof -
  have b: "backoff_length
             (\<lambda>k. fitsInBudget counting_tc (ctx_budget five_context)
                     \<lparr>entities = take k five_entities, relations = []\<rparr>) 5 = 4"
    by (simp add: backoff_length.simps)
  have b': "backoff_length (\<lambda>k. min 5 k \<le> 4) 5 = (4::nat)"
    by (simp add: backoff_length.simps)
  have ne: "five_entities \<noteq> []"
    by (simp add: five_entities_def)
  have s: "show_nat 5 = ''5''" "show_nat 4 = ''4''"
    by (simp_all add: show_nat.simps)
  have f: "filterAndLimitEntities (ctx_entities five_context)
             \<lparr>so_mode = Some Entities, so_entityTypes = None, so_limit = None\<rparr> = five_entities"
    by (simp add: filterAndLimitEntities_def)
  note t = flat_views_backoff[of counting_tc five_context
         "\<lparr>so_mode = Some Entities, so_entityTypes = None, so_limit = None\<rparr>"]
  from t[THEN conjunct1]
  have 1: "buildEntitiesStreamingResponse counting_tc five_context
     \<lparr>so_mode = Some Entities, so_entityTypes = None, so_limit = None\<rparr>
   = Some \<lparr>rs_content = \<lparr>entities = take 4 five_entities, relations = []\<rparr>,
           rs_meta = \<lparr>tokenCount = 4, tokenLimit = 4, truncated = True,
                      truncationReason = Some ''Reduced from 5 to 4 entities'',
                      sectionsIncluded = [''entities'']\<rparr>\<rparr>"
    unfolding f Let_def by (simp add: b b' ne s)
  from t[THEN conjunct2, THEN conjunct2, THEN conjunct2, THEN conjunct2]
  have 2: "buildRawStreamingResponse counting_tc five_context
   = \<lparr>rs_content = \<lparr>entities = [], relations = []\<rparr>,
      rs_meta = \<lparr>tokenCount = 0, tokenLimit = 4, truncated = True,
                 truncationReason = Some
                   ''Raw response too large - use smart, entities, or relationships mode with limits'',
                 sectionsIncluded = []\<rparr>\<rparr>"
    unfolding Let_def by simp
  from 1 2 show ?thesis by (rule conjI)
qed

text \<open>The raw view of the same five entities: four fifths of them fit the budget, and the
  view is empty all the same.\<close>

theorem raw_view_not_shrunk_counterexample:
  "\<not> fitsInBudget counting_tc (ctx_budget five_context)
        \<lparr>entities = ctx_entities five_context, relations = ctx_relations five_context\<rparr>
   \<and> shrink (ctx_entities five_context) = take 4 five_entities
   \<and> fitsInBudget counting_tc (ctx_budget five_context)
        \<lparr>entities = shrink (ctx_entities five_context), relations = ctx_relations five_context\<rparr>
   \<and> rs_content (buildRawStreamingResponse counting_tc five_context)
       = \<lparr>entities = [], relations = []\<rparr>
   \<and> rs_content (buildRawStreamingResponse counting_tc five_context)
       \<noteq> \<lparr>entities = shrink (ctx_entities five_context), relations = ctx_relations five_context\<rparr>"
  by (simp add: buildRawStreamingResponse_def shrink_def Let_def) (simp add: five_entities_def)

end
